theory Spec2Isabelle
  imports Main
begin

section \<open>JavaScript values\<close>

text \<open>
  A JavaScript string is a sequence of UTF-16 code units.  The program never computes
  with a code unit (it only compares them), so a code unit is modelled by its number, a
  natural number, and every statement below holds for all sequences of numbers.  ASCII
  text is written with \<open>ascii\<close>; a code unit outside ASCII is written as its number
  (\<open>0xE9\<close> is e-acute, \<open>0xEE\<close> i-circumflex, \<open>0xC9\<close> capital E-acute, \<open>0xC0\<close>
  capital A-grave).
\<close>

type_synonym jsstring = "nat list"

definition ascii :: "string \<Rightarrow> jsstring" where
  "ascii s = map of_char s"

text \<open>
  The values that \<open>JSON.parse\<close> produces, and \<open>undefined\<close> for a property that is
  absent.  Numbers are kept as integers: the code below only asks whether a number is
  zero and whether a value is a string.  An object is the list of its properties; a
  lookup takes the first binding of a name.
\<close>

datatype jsval =
    JUndefined
  | JNull
  | JBool bool
  | JNum int
  | JStr jsstring
  | JArr "jsval list"
  | JObj "(jsstring \<times> jsval) list"

text \<open>Truthiness, as \<open>!v\<close>, \<open>v || d\<close> and \<open>if (v)\<close> test it.\<close>

fun truthy :: "jsval \<Rightarrow> bool" where
  "truthy JUndefined = False"
| "truthy JNull = False"
| "truthy (JBool b) = b"
| "truthy (JNum n) = (n \<noteq> 0)"
| "truthy (JStr s) = (s \<noteq> [])"
| "truthy (JArr _) = True"
| "truthy (JObj _) = True"

text \<open>\<open>a || b\<close>\<close>

definition orElse :: "jsval \<Rightarrow> jsval \<Rightarrow> jsval" where
  "orElse a b = (if truthy a then a else b)"

text \<open>\<open>s.startsWith(p)\<close> and \<open>s.includes(p)\<close> (named \<open>includesText\<close> here), both case sensitive.\<close>

fun startsWith :: "jsstring \<Rightarrow> jsstring \<Rightarrow> bool" where
  "startsWith s [] = True"
| "startsWith [] (p # ps) = False"
| "startsWith (c # cs) (p # ps) = (if c = p then startsWith cs ps else False)"

fun includesText :: "jsstring \<Rightarrow> jsstring \<Rightarrow> bool" where
  "includesText [] p = startsWith [] p"
| "includesText (c # cs) p = (if startsWith (c # cs) p then True else includesText cs p)"

section \<open>Regular expressions of the prompt enhancer\<close>

text \<open>
  Every regular expression of \<open>enhancePrompt\<close> is an alternation of literal ASCII words
  with the flag \<open>i\<close> and without the flag \<open>u\<close>.  Two code units match when their
  canonical forms are equal.  The canonical form of an ASCII letter is its upper-case
  letter, every other ASCII code unit is its own canonical form, and the canonical form
  of a code unit outside ASCII is never an ASCII code unit; since all pattern characters
  are ASCII, \<open>canonicalize\<close> may leave the code units outside ASCII as they are.
\<close>

definition canonicalize :: "nat \<Rightarrow> nat" where
  "canonicalize c = (if 0x61 \<le> c \<and> c \<le> 0x7A then c - 0x20 else c)"

text \<open>The literal \<open>pat\<close> matches at the start of the text.\<close>

fun matchesAt :: "jsstring \<Rightarrow> jsstring \<Rightarrow> bool" where
  "matchesAt [] s = True"
| "matchesAt (p # ps) [] = False"
| "matchesAt (p # ps) (c # cs) =
     (if canonicalize c = canonicalize p then matchesAt ps cs else False)"

text \<open>\<open>/alt1|alt2|...|altn/i.test(s)\<close>: some alternative matches at some position.\<close>

fun regexTest :: "jsstring list \<Rightarrow> jsstring \<Rightarrow> bool" where
  "regexTest alts [] = list_ex (\<lambda>alt. matchesAt alt []) alts"
| "regexTest alts (c # cs) =
     (if list_ex (\<lambda>alt. matchesAt alt (c # cs)) alts then True else regexTest alts cs)"

definition artisticRe :: "jsstring list" where
  "artisticRe = map ascii [''art'', ''painting'', ''drawing'', ''sketch'', ''illustration'',
     ''cartoon'', ''anime'', ''watercolor'', ''oil painting'', ''abstract'']"

definition photoRe :: "jsstring list" where
  "photoRe = map ascii [''photo'', ''photograph'', ''realistic'', ''real'', ''portrait'',
     ''landscape'', ''nature'']"

definition foodRe :: "jsstring list" where
  "foodRe = map ascii [''food'', ''dish'', ''meal'', ''recipe'', ''cuisine'', ''restaurant'',
     ''plat'', ''repas'', ''nourriture'']"

definition logoRe :: "jsstring list" where
  "logoRe = map ascii [''logo'', ''icon'', ''brand'', ''emblem'', ''badge'']"

definition render3dRe :: "jsstring list" where
  "render3dRe = map ascii [''3d'', ''render'', ''cgi'', ''digital art'']"

definition minimalRe :: "jsstring list" where
  "minimalRe = map ascii [''minimal'', ''simple'', ''clean'', ''flat'']"

section \<open>The prompt enhancer\<close>

text \<open>
  \<open>String.prototype.toLowerCase\<close> is a built-in of the runtime, defined by the Unicode
  case mappings.  It is a parameter of the model, written \<open>toLowerCase\<close>, so that
  every statement below holds for whatever the runtime computes.
\<close>

definition isArtistic :: "(jsstring \<Rightarrow> jsstring) \<Rightarrow> jsstring \<Rightarrow> bool" where
  "isArtistic toLowerCase userPrompt = regexTest artisticRe (toLowerCase userPrompt)"

definition isPhoto :: "(jsstring \<Rightarrow> jsstring) \<Rightarrow> jsstring \<Rightarrow> bool" where
  "isPhoto toLowerCase userPrompt = regexTest photoRe (toLowerCase userPrompt)"

definition isFood :: "(jsstring \<Rightarrow> jsstring) \<Rightarrow> jsstring \<Rightarrow> bool" where
  "isFood toLowerCase userPrompt = regexTest foodRe (toLowerCase userPrompt)"

definition isLogo :: "(jsstring \<Rightarrow> jsstring) \<Rightarrow> jsstring \<Rightarrow> bool" where
  "isLogo toLowerCase userPrompt = regexTest logoRe (toLowerCase userPrompt)"

definition is3D :: "(jsstring \<Rightarrow> jsstring) \<Rightarrow> jsstring \<Rightarrow> bool" where
  "is3D toLowerCase userPrompt = regexTest render3dRe (toLowerCase userPrompt)"

definition isMinimal :: "(jsstring \<Rightarrow> jsstring) \<Rightarrow> jsstring \<Rightarrow> bool" where
  "isMinimal toLowerCase userPrompt = regexTest minimalRe (toLowerCase userPrompt)"

text \<open>The style templates, each a pair (stylePrefix, styleSuffix).\<close>

definition en_artistic :: "jsstring \<times> jsstring" where
  "en_artistic =
    (ascii ''Beautiful artistic creation, masterful technique: '',
     ascii ''. Rich details, expressive style, museum quality artwork.'')"

definition en_logo :: "jsstring \<times> jsstring" where
  "en_logo =
    (ascii ''Professional logo design, clean vector style: '',
     ascii ''. Modern, memorable, scalable design with perfect symmetry.'')"

definition en_render3d :: "jsstring \<times> jsstring" where
  "en_render3d =
    (ascii ''High-quality 3D render, cinematic lighting: '',
     ascii ''. Octane render quality, realistic materials, dramatic composition.'')"

definition en_minimal :: "jsstring \<times> jsstring" where
  "en_minimal =
    (ascii ''Clean minimal design: '',
     ascii ''. Simple, elegant, balanced composition with purposeful whitespace.'')"

definition en_food :: "jsstring \<times> jsstring" where
  "en_food =
    (ascii ''Professional food photography, appetizing presentation: '',
     ascii ''. Gourmet styling, perfect lighting, mouth-watering details, 8K quality.'')"

definition en_photo :: "jsstring \<times> jsstring" where
  "en_photo =
    (ascii ''Professional photography, ultra high resolution: '',
     ascii ''. Perfect lighting, sharp focus, vivid colors, 8K quality.'')"

definition en_generic :: "jsstring \<times> jsstring" where
  "en_generic =
    (ascii ''High quality, detailed image: '',
     ascii ''. Professional quality, vivid colors, excellent composition, 4K resolution.'')"

definition fr_artistic :: "jsstring \<times> jsstring" where
  "fr_artistic =
    (ascii ''Belle cr'' @ [0xE9] @ ascii ''ation artistique, technique ma'' @ [0xEE] @ ascii ''tris'' @ [0xE9] @ ascii ''e: '',
     ascii ''. D'' @ [0xE9] @ ascii ''tails riches, style expressif, qualit'' @ [0xE9] @ ascii '' mus'' @ [0xE9] @ ascii ''e.'')"

definition fr_logo :: "jsstring \<times> jsstring" where
  "fr_logo =
    (ascii ''Design de logo professionnel, style vectoriel '' @ [0xE9] @ ascii ''pur'' @ [0xE9] @ ascii '': '',
     ascii ''. Moderne, m'' @ [0xE9] @ ascii ''morable, design scalable avec sym'' @ [0xE9] @ ascii ''trie parfaite.'')"

definition fr_render3d :: "jsstring \<times> jsstring" where
  "fr_render3d =
    (ascii ''Rendu 3D haute qualit'' @ [0xE9] @ ascii '', '' @ [0xE9] @ ascii ''clairage cin'' @ [0xE9] @ ascii ''matique: '',
     ascii ''. Qualit'' @ [0xE9] @ ascii '' Octane render, mat'' @ [0xE9] @ ascii ''riaux r'' @ [0xE9] @ ascii ''alistes, composition dramatique.'')"

definition fr_minimal :: "jsstring \<times> jsstring" where
  "fr_minimal =
    (ascii ''Design minimaliste '' @ [0xE9] @ ascii ''pur'' @ [0xE9] @ ascii '': '',
     ascii ''. Simple, '' @ [0xE9] @ ascii ''l'' @ [0xE9] @ ascii ''gant, composition '' @ [0xE9] @ ascii ''quilibr'' @ [0xE9] @ ascii ''e avec espaces blancs intentionnels.'')"

definition fr_food :: "jsstring \<times> jsstring" where
  "fr_food =
    (ascii ''Photographie culinaire professionnelle, pr'' @ [0xE9] @ ascii ''sentation app'' @ [0xE9] @ ascii ''tissante: '',
     ascii ''. Style gastronomique, '' @ [0xE9] @ ascii ''clairage parfait, d'' @ [0xE9] @ ascii ''tails savoureux, qualit'' @ [0xE9] @ ascii '' 8K.'')"

definition fr_photo :: "jsstring \<times> jsstring" where
  "fr_photo =
    (ascii ''Photographie professionnelle, ultra haute r'' @ [0xE9] @ ascii ''solution: '',
     ascii ''. '' @ [0xC9] @ ascii ''clairage parfait, mise au point nette, couleurs vives, qualit'' @ [0xE9] @ ascii '' 8K.'')"

definition fr_generic :: "jsstring \<times> jsstring" where
  "fr_generic =
    (ascii ''Image de haute qualit'' @ [0xE9] @ ascii '', d'' @ [0xE9] @ ascii ''taill'' @ [0xE9] @ ascii ''e: '',
     ascii ''. Qualit'' @ [0xE9] @ ascii '' professionnelle, couleurs vives, excellente composition, r'' @ [0xE9] @ ascii ''solution 4K.'')"

text \<open>
  The two variables \<open>stylePrefix\<close> and \<open>styleSuffix\<close> as the if/else-if chains of
  \<open>enhancePrompt\<close> assign them.  \<open>lang\<close> is whatever value the handler passes:
  \<open>lang === 'en'\<close> holds for the string \<open>en\<close> only.
\<close>

definition styleOf :: "(jsstring \<Rightarrow> jsstring) \<Rightarrow> jsstring \<Rightarrow> jsval \<Rightarrow> jsstring \<times> jsstring" where
  "styleOf toLowerCase userPrompt lang =
     (if lang = JStr (ascii ''en'') then
        (if isArtistic toLowerCase userPrompt then en_artistic
         else if isLogo toLowerCase userPrompt then en_logo
         else if is3D toLowerCase userPrompt then en_render3d
         else if isMinimal toLowerCase userPrompt then en_minimal
         else if isFood toLowerCase userPrompt then en_food
         else if isPhoto toLowerCase userPrompt then en_photo
         else en_generic)
      else
        (if isArtistic toLowerCase userPrompt then fr_artistic
         else if isLogo toLowerCase userPrompt then fr_logo
         else if is3D toLowerCase userPrompt then fr_render3d
         else if isMinimal toLowerCase userPrompt then fr_minimal
         else if isFood toLowerCase userPrompt then fr_food
         else if isPhoto toLowerCase userPrompt then fr_photo
         else fr_generic))"

definition enhancePrompt :: "(jsstring \<Rightarrow> jsstring) \<Rightarrow> jsstring \<Rightarrow> jsval \<Rightarrow> jsstring" where
  "enhancePrompt toLowerCase userPrompt lang =
     (case styleOf toLowerCase userPrompt lang of
        (stylePrefix, styleSuffix) \<Rightarrow> stylePrefix @ userPrompt @ styleSuffix)"

section \<open>The classification as the specification words it\<close>

datatype category = Artistic | Logo | Render3D | Minimal | Food | Photo | Generic

text \<open>
  The precedence of the specification: artistic, then logo, then 3D, then minimal, then
  food, then photo, then the generic fallback.  The arguments are the six predicates in
  the order in which \<open>enhancePrompt\<close> computes them.
\<close>

definition selectCategory :: "bool \<Rightarrow> bool \<Rightarrow> bool \<Rightarrow> bool \<Rightarrow> bool \<Rightarrow> bool \<Rightarrow> category" where
  "selectCategory artistic photo food logo render3d minimal =
     (if artistic then Artistic
      else if logo then Logo
      else if render3d then Render3D
      else if minimal then Minimal
      else if food then Food
      else if photo then Photo
      else Generic)"

definition categoryOf :: "(jsstring \<Rightarrow> jsstring) \<Rightarrow> jsstring \<Rightarrow> category" where
  "categoryOf toLowerCase userPrompt =
     selectCategory (isArtistic toLowerCase userPrompt) (isPhoto toLowerCase userPrompt)
       (isFood toLowerCase userPrompt) (isLogo toLowerCase userPrompt)
       (is3D toLowerCase userPrompt) (isMinimal toLowerCase userPrompt)"

fun englishTemplate :: "category \<Rightarrow> jsstring \<times> jsstring" where
  "englishTemplate Artistic = en_artistic"
| "englishTemplate Logo = en_logo"
| "englishTemplate Render3D = en_render3d"
| "englishTemplate Minimal = en_minimal"
| "englishTemplate Food = en_food"
| "englishTemplate Photo = en_photo"
| "englishTemplate Generic = en_generic"

fun frenchTemplate :: "category \<Rightarrow> jsstring \<times> jsstring" where
  "frenchTemplate Artistic = fr_artistic"
| "frenchTemplate Logo = fr_logo"
| "frenchTemplate Render3D = fr_render3d"
| "frenchTemplate Minimal = fr_minimal"
| "frenchTemplate Food = fr_food"
| "frenchTemplate Photo = fr_photo"
| "frenchTemplate Generic = fr_generic"

definition templateFor :: "jsval \<Rightarrow> category \<Rightarrow> jsstring \<times> jsstring" where
  "templateFor lang c = (if lang = JStr (ascii ''en'') then englishTemplate c else frenchTemplate c)"

definition categories :: "category list" where
  "categories = [Artistic, Logo, Render3D, Minimal, Food, Photo, Generic]"

text \<open>All the style texts of a language: every prefix and every suffix.\<close>

definition styleTexts :: "(category \<Rightarrow> jsstring \<times> jsstring) \<Rightarrow> jsstring list" where
  "styleTexts table = map (\<lambda>c. fst (table c)) categories @ map (\<lambda>c. snd (table c)) categories"

text \<open>
  What the runtime's \<open>toLowerCase\<close> does to ASCII: a run of lower-case ASCII letters
  stays where it is, whatever surrounds it.
\<close>

definition keepsLowerAscii :: "(jsstring \<Rightarrow> jsstring) \<Rightarrow> bool" where
  "keepsLowerAscii toLowerCase \<longleftrightarrow>
     (\<forall>a w b. (\<forall>c \<in> set w. 0x61 \<le> c \<and> c \<le> 0x7A) \<longrightarrow>
        (\<exists>a' b'. toLowerCase (a @ w @ b) = a' @ w @ b'))"

text \<open>\<open>toLowerCase\<close> on the ASCII letters alone: an instance of the parameter for examples.\<close>

definition asciiToLowerCase :: "jsstring \<Rightarrow> jsstring" where
  "asciiToLowerCase s = map (\<lambda>c. if 0x41 \<le> c \<and> c \<le> 0x5A then c + 0x20 else c) s"

section \<open>The edge function \<open>generate-image\<close>\<close>

text \<open>
  Reading a property of a value that is neither \<open>null\<close> nor \<open>undefined\<close>.  The
  names read below (\<open>choices\<close>, \<open>message\<close>, \<open>images\<close>, \<open>image_url\<close>, \<open>url\<close>) are
  properties of no built-in prototype, so every value that is not an object gives
  \<open>undefined\<close>.  \<open>getFirst v\<close> is \<open>v[0]\<close>.
\<close>

fun getProp :: "jsstring \<Rightarrow> jsval \<Rightarrow> jsval" where
  "getProp k (JObj kvs) = (case map_of kvs k of Some v \<Rightarrow> v | None \<Rightarrow> JUndefined)"
| "getProp k v = JUndefined"

fun getFirst :: "jsval \<Rightarrow> jsval" where
  "getFirst (JArr xs) = (case xs of [] \<Rightarrow> JUndefined | x # _ \<Rightarrow> x)"
| "getFirst (JStr s) = (case s of [] \<Rightarrow> JUndefined | c # _ \<Rightarrow> JStr [c])"
| "getFirst (JObj kvs) = getProp (ascii ''0'') (JObj kvs)"
| "getFirst v = JUndefined"

definition nullish :: "jsval \<Rightarrow> bool" where
  "nullish v \<longleftrightarrow> v = JNull \<or> v = JUndefined"

text \<open>Optional chaining: \<open>v?.k\<close> is \<open>optional (getProp k) v\<close>, \<open>v?.[0]\<close> is \<open>optional getFirst v\<close>.\<close>

definition optional :: "(jsval \<Rightarrow> jsval) \<Rightarrow> jsval \<Rightarrow> jsval" where
  "optional read v = (if nullish v then JUndefined else read v)"

text \<open>\<open>data.choices?.[0]?.message?.images?.[0]?.image_url?.url\<close>, for \<open>data\<close> not nullish.\<close>

definition imageUrlOf :: "jsval \<Rightarrow> jsval" where
  "imageUrlOf data =
     optional (getProp (ascii ''url''))
       (optional (getProp (ascii ''image_url''))
         (optional getFirst
           (optional (getProp (ascii ''images''))
             (optional (getProp (ascii ''message''))
               (optional getFirst
                 (getProp (ascii ''choices'') data))))))"

text \<open>\<open>s.split(sep)\<close> for a separator of one code unit, and \<open>xs[1]\<close> (\<open>None\<close> is \<open>undefined\<close>).\<close>

fun split :: "nat \<Rightarrow> jsstring \<Rightarrow> jsstring list" where
  "split sep [] = [] # []"
| "split sep (c # cs) =
     (if c = sep then [] # split sep cs
      else (case split sep cs of [] \<Rightarrow> [c] # [] | x # xs \<Rightarrow> (c # x) # xs))"

fun second :: "'a list \<Rightarrow> 'a option" where
  "second (x # y # ys) = Some y"
| "second xs = None"

definition comma :: nat where
  "comma = 0x2C"

text \<open>
  The variable \<open>imageBase64\<close> of the handler: \<open>imageUrl\<close>, or
  \<open>imageUrl.split(',')[1]\<close> when \<open>imageUrl.startsWith('data:')\<close>.
\<close>

definition imageBase64Of :: "jsstring \<Rightarrow> jsstring option" where
  "imageBase64Of imageUrl =
     (if startsWith imageUrl (ascii ''data:'') then second (split comma imageUrl)
      else Some imageUrl)"

text \<open>
  What the \<open>try\<close> block throws.  \<open>RuntimeError\<close> stands for every exception that the
  runtime raises: a rejected \<open>await\<close> and a \<open>TypeError\<close>.
\<close>

datatype thrown =
    NotConfigured
  | AIError nat
  | NoImageGenerated
  | RuntimeError

text \<open>
  The \<open>error\<close> property of a failure body: one of the two fixed texts, or the message
  of what was thrown.
\<close>

datatype message = RateLimitExceeded | PaymentRequired | MessageOf thrown

text \<open>
  The body of a response of the handler: \<open>null\<close>, \<open>{error, success: false}\<close>, or
  \<open>{imageBase64, success: true}\<close>.  \<open>JSON.stringify\<close> leaves out a property whose
  value is \<open>undefined\<close>: \<open>ImageBody None\<close> is the text \<open>{"success":true}\<close>.
\<close>

datatype resp_body = NullBody | ErrorBody message | ImageBody "jsstring option"

record response =
  status :: nat
  body :: resp_body

fun success :: "resp_body \<Rightarrow> bool option" where
  "success NullBody = None"
| "success (ErrorBody m) = Some False"
| "success (ImageBody b) = Some True"

fun imageBase64 :: "resp_body \<Rightarrow> jsstring option" where
  "imageBase64 (ImageBody b) = b"
| "imageBase64 other = None"

text \<open>
  The external API.  \<open>fetch\<close> rejects or resolves to a response with a status and a
  body; reading the body (\<open>response.text()\<close>, \<open>response.json()\<close>) rejects when the body
  cannot be read, and \<open>response.json()\<close> also when it is not JSON.
\<close>

datatype api_body = Unreadable | NotJson | Json jsval

datatype fetch_result = FetchRejected | FetchResolved nat api_body

definition ok :: "nat \<Rightarrow> bool" where
  "ok st \<longleftrightarrow> 200 \<le> st \<and> st \<le> 299"

text \<open>
  A request: \<open>req.method\<close> (the field \<open>reqMethod\<close>) and what \<open>const { prompt, language } = await req.json()\<close>
  binds (\<open>None\<close> when that statement throws; a property that is absent is
  \<open>JUndefined\<close>).
\<close>

record request =
  reqMethod :: jsstring
  json :: "(jsval \<times> jsval) option"

text \<open>
  The environment of an invocation: the runtime's \<open>toLowerCase\<close>, the variable
  \<open>LOVABLE_API_KEY\<close> (\<open>None\<close> when it is not set) and the external API, which
  answers a call from its bearer key and the content of the user message.
\<close>

record environment =
  toLowerCase :: "jsstring \<Rightarrow> jsstring"
  LOVABLE_API_KEY :: "jsstring option"
  fetch :: "jsstring \<Rightarrow> jsstring \<Rightarrow> fetch_result"

text \<open>A network call: the bearer key and the enhanced prompt that were sent.\<close>

type_synonym call = "jsstring \<times> jsstring"

text \<open>The statements after \<open>const data = await response.json()\<close>.\<close>

definition respond :: "jsval \<Rightarrow> thrown + response" where
  "respond data =
     (if nullish data then Inl RuntimeError
      else
        (let imageUrl = imageUrlOf data in
         if \<not> truthy imageUrl then Inl NoImageGenerated
         else
           (case imageUrl of
              JStr url \<Rightarrow> Inr \<lparr>status = 200, body = ImageBody (imageBase64Of url)\<rparr>
            | _ \<Rightarrow> Inl RuntimeError)))"

text \<open>The statements after \<open>await fetch(...)\<close> has resolved.\<close>

definition classify :: "nat \<Rightarrow> api_body \<Rightarrow> thrown + response" where
  "classify st b =
     (if \<not> ok st then
        (case b of
           Unreadable \<Rightarrow> Inl RuntimeError
         | _ \<Rightarrow>
             if st = 429 then Inr \<lparr>status = 429, body = ErrorBody RateLimitExceeded\<rparr>
             else if st = 402 then Inr \<lparr>status = 402, body = ErrorBody PaymentRequired\<rparr>
             else Inl (AIError st))
      else
        (case b of
           Json data \<Rightarrow> respond data
         | _ \<Rightarrow> Inl RuntimeError))"

text \<open>The \<open>try\<close> block, with the network calls it made.\<close>

definition tryBlock :: "environment \<Rightarrow> request \<Rightarrow> (thrown + response) \<times> call list" where
  "tryBlock env req =
     (case json req of
        None \<Rightarrow> (Inl RuntimeError, [])
      | Some (prompt, language) \<Rightarrow>
          (case LOVABLE_API_KEY env of
             None \<Rightarrow> (Inl NotConfigured, [])
           | Some key \<Rightarrow>
               if key = [] then (Inl NotConfigured, [])
               else
                 (case prompt of
                    JStr userPrompt \<Rightarrow>
                      (let enhancedPrompt =
                             enhancePrompt (toLowerCase env) userPrompt
                               (orElse language (JStr (ascii ''fr'')))
                       in case fetch env key enhancedPrompt of
                            FetchRejected \<Rightarrow> (Inl RuntimeError, [(key, enhancedPrompt)])
                          | FetchResolved st b \<Rightarrow> (classify st b, [(key, enhancedPrompt)]))
                  | _ \<Rightarrow> (Inl RuntimeError, []))))"

text \<open>The handler given to \<open>serve\<close>: the preflight answer, the \<open>try\<close> block, the \<open>catch\<close>.\<close>

definition handler :: "environment \<Rightarrow> request \<Rightarrow> response \<times> call list" where
  "handler env req =
     (if reqMethod req = ascii ''OPTIONS'' then (\<lparr>status = 200, body = NullBody\<rparr>, [])
      else
        (case tryBlock env req of
           (Inr resp, calls) \<Rightarrow> (resp, calls)
         | (Inl err, calls) \<Rightarrow> (\<lparr>status = 500, body = ErrorBody (MessageOf err)\<rparr>, calls)))"

section \<open>The hook \<open>useRestaurantWebsite\<close>\<close>

text \<open>
  An object is a map from property names to values; \<open>{...a, ...b}\<close> is \<open>a ++ b\<close>.
  Reading a property that is absent gives \<open>undefined\<close>.
\<close>

type_synonym object = "jsstring \<rightharpoonup> jsval"

definition field :: "object \<Rightarrow> jsstring \<Rightarrow> jsval" where
  "field obj k = (case obj k of None \<Rightarrow> JUndefined | Some v \<Rightarrow> v)"

definition defaultConfig :: "(jsstring \<times> jsval) list" where
  "defaultConfig =
    [(ascii ''is_published'', JBool False),
     (ascii ''subdomain'', JNull),
     (ascii ''custom_domain'', JNull),
     (ascii ''theme_color'', JStr (ascii ''#FF6B35'')),
     (ascii ''secondary_color'', JStr (ascii ''#1A1A2E'')),
     (ascii ''font_family'', JStr (ascii ''Inter'')),
     (ascii ''logo_position'', JStr (ascii ''left'')),
     (ascii ''hero_title'', JNull),
     (ascii ''hero_subtitle'', JNull),
     (ascii ''hero_image_url'', JNull),
     (ascii ''hero_cta_text'', JStr (ascii ''R'' @ [0xE9] @ ascii ''server une table'')),
     (ascii ''hero_cta_enabled'', JBool True),
     (ascii ''about_title'', JStr ([0xC0] @ ascii '' propos'')),
     (ascii ''about_content'', JNull),
     (ascii ''about_image_url'', JNull),
     (ascii ''about_enabled'', JBool True),
     (ascii ''menu_title'', JStr (ascii ''Notre Menu'')),
     (ascii ''menu_enabled'', JBool True),
     (ascii ''menu_display_style'', JStr (ascii ''grid'')),
     (ascii ''gallery_title'', JStr (ascii ''Galerie'')),
     (ascii ''gallery_images'', JArr []),
     (ascii ''gallery_enabled'', JBool True),
     (ascii ''contact_title'', JStr (ascii ''Contact'')),
     (ascii ''contact_enabled'', JBool True),
     (ascii ''show_map'', JBool True),
     (ascii ''show_opening_hours'', JBool True),
     (ascii ''reservations_title'', JStr (ascii ''R'' @ [0xE9] @ ascii ''servations'')),
     (ascii ''reservations_enabled'', JBool True),
     (ascii ''reservations_description'', JNull),
     (ascii ''show_social_links'', JBool True),
     (ascii ''meta_title'', JNull),
     (ascii ''meta_description'', JNull),
     (ascii ''meta_keywords'', JNull),
     (ascii ''google_analytics_id'', JNull)]"

text \<open>
  The calls of the store's client.  The hook issues the first three; \<open>Delete\<close> is the
  client's \<open>.delete().eq('id', id)\<close>.
\<close>

datatype store_op =
    SelectMaybeSingle jsstring
  | Update object jsval
  | InsertSelectSingle object
  | Delete jsval

text \<open>
  The answer \<open>{data, error}\<close> of the store: \<open>Failed\<close> when \<open>error\<close> is set, else the
  row in \<open>data\<close> (\<open>None\<close> when \<open>data\<close> is \<open>null\<close>).
\<close>

datatype store_reply = Failed | Data "object option"

record hook_state =
  config :: "object option"
  loading :: bool
  saving :: bool

definition initialHook :: hook_state where
  "initialHook = \<lparr>config = None, loading = True, saving = False\<rparr>"

text \<open>\<open>!restaurantId\<close> for \<open>restaurantId: string | null\<close>.\<close>

fun missing :: "jsstring option \<Rightarrow> bool" where
  "missing None = True"
| "missing (Some s) = (s = [])"

text \<open>
  \<open>loadWebsiteConfig\<close>: the state after the call and the store calls made.
\<close>

definition loadWebsiteConfig ::
  "(store_op \<Rightarrow> store_reply) \<Rightarrow> jsstring option \<Rightarrow> hook_state \<Rightarrow> hook_state \<times> store_op list" where
  "loadWebsiteConfig store restaurantId st =
     (case restaurantId of
        None \<Rightarrow> (st, [])
      | Some rid \<Rightarrow>
          if rid = [] then (st, [])
          else
            (case store (SelectMaybeSingle rid) of
               Failed \<Rightarrow> (st\<lparr>loading := False\<rparr>, [SelectMaybeSingle rid])
             | Data (Some row) \<Rightarrow>
                 (st\<lparr>config := Some row, loading := False\<rparr>, [SelectMaybeSingle rid])
             | Data None \<Rightarrow>
                 (st\<lparr>config := Some ((map_of defaultConfig)(ascii ''restaurant_id'' \<mapsto> JStr rid)),
                     loading := False\<rparr>,
                  [SelectMaybeSingle rid])))"

text \<open>
  \<open>saveConfig\<close>: the boolean returned, the state after the call and the store calls
  made.
\<close>

definition saveConfig ::
  "(store_op \<Rightarrow> store_reply) \<Rightarrow> jsstring option \<Rightarrow> hook_state \<Rightarrow> object
     \<Rightarrow> bool \<times> hook_state \<times> store_op list" where
  "saveConfig store restaurantId st updates =
     (case (restaurantId, config st) of
        (Some rid, Some cfg) \<Rightarrow>
          if rid = [] then (False, st, [])
          else
            (let updatedConfig = cfg ++ updates in
             if truthy (field cfg (ascii ''id'')) then
               (case store (Update updates (field cfg (ascii ''id''))) of
                  Failed \<Rightarrow>
                    (False, st\<lparr>saving := False\<rparr>, [Update updates (field cfg (ascii ''id''))])
                | Data d \<Rightarrow>
                    (True, st\<lparr>config := Some updatedConfig, saving := False\<rparr>,
                     [Update updates (field cfg (ascii ''id''))]))
             else
               (let row = updatedConfig(ascii ''restaurant_id'' \<mapsto> JStr rid) in
                case store (InsertSelectSingle row) of
                  Failed \<Rightarrow> (False, st\<lparr>saving := False\<rparr>, [InsertSelectSingle row])
                | Data None \<Rightarrow> (False, st\<lparr>saving := False\<rparr>, [InsertSelectSingle row])
                | Data (Some d) \<Rightarrow>
                    (True,
                     st\<lparr>config := Some (updatedConfig(ascii ''id'' \<mapsto> field d (ascii ''id''))),
                        saving := False\<rparr>,
                     [InsertSelectSingle row])))
      | _ \<Rightarrow> (False, st, []))"

definition publishWebsite ::
  "(store_op \<Rightarrow> store_reply) \<Rightarrow> jsstring option \<Rightarrow> hook_state \<Rightarrow> bool \<times> hook_state \<times> store_op list" where
  "publishWebsite store restaurantId st =
     saveConfig store restaurantId st [ascii ''is_published'' \<mapsto> JBool True]"

definition unpublishWebsite ::
  "(store_op \<Rightarrow> store_reply) \<Rightarrow> jsstring option \<Rightarrow> hook_state \<Rightarrow> bool \<times> hook_state \<times> store_op list" where
  "unpublishWebsite store restaurantId st =
     saveConfig store restaurantId st [ascii ''is_published'' \<mapsto> JBool False]"

fun isDelete :: "store_op \<Rightarrow> bool" where
  "isDelete (Delete i) = True"
| "isDelete other = False"

fun isWrite :: "store_op \<Rightarrow> bool" where
  "isWrite (SelectMaybeSingle rid) = False"
| "isWrite other = True"

section \<open>The public site: \<open>get_public_website\<close> and \<open>RestaurantSite\<close>\<close>

text \<open>
  A row of a table is an object with one property for each column; SQL \<open>NULL\<close> is
  \<open>JNull\<close>.  The comparison \<open>a = b\<close> of SQL is true only when neither side is
  \<open>NULL\<close>.
\<close>

definition col :: "object \<Rightarrow> string \<Rightarrow> jsval" where
  "col row c = (case row (ascii c) of None \<Rightarrow> JNull | Some v \<Rightarrow> v)"

definition sqlEq :: "jsval \<Rightarrow> jsval \<Rightarrow> bool" where
  "sqlEq a b \<longleftrightarrow> a \<noteq> JNull \<and> b \<noteq> JNull \<and> a = b"

record database =
  restaurant_websites :: "object list"
  restaurants :: "object list"

text \<open>The columns of \<open>restaurants\<close> that \<open>jsonb_build_object\<close> copies.\<close>

definition restaurantColumns :: "string list" where
  "restaurantColumns =
     [''id'', ''name'', ''description'', ''description_fr'', ''description_en'', ''address'',
      ''phone'', ''email'', ''cuisine_type'', ''price_range'', ''logo_url'', ''cover_image_url'',
      ''opening_hours'', ''reservations_enabled'', ''instagram_url'', ''facebook_url'',
      ''tiktok_url'', ''dietary_restrictions'', ''allergens'', ''restaurant_specialties'',
      ''service_types'', ''parking'', ''dress_code'']"

definition restaurant_data :: "object \<Rightarrow> object" where
  "restaurant_data r = map_of (map (\<lambda>c. (ascii c, col r c)) restaurantColumns)"

text \<open>
  The SQL function \<open>get_public_website\<close>: the join of the two tables on
  \<open>r.id = rw.restaurant_id\<close>, filtered by the \<open>WHERE\<close> clause; each result is the pair
  (\<open>website_config\<close>, \<open>restaurant_data\<close>).
\<close>

definition get_public_website :: "database \<Rightarrow> jsstring \<Rightarrow> (object \<times> object) list" where
  "get_public_website db website_subdomain =
     concat (map (\<lambda>rw.
       map (\<lambda>r. (rw, restaurant_data r))
         (filter (\<lambda>r. sqlEq (col r ''id'') (col rw ''restaurant_id'')
                      \<and> sqlEq (col rw ''subdomain'') (JStr website_subdomain)
                      \<and> sqlEq (col rw ''is_published'') (JBool True)
                      \<and> sqlEq (col r ''is_active'') (JBool True))
            (restaurants db)))
       (restaurant_websites db))"

text \<open>The answer \<open>{data, error}\<close> of \<open>supabase.rpc\<close>.\<close>

datatype rpc_reply = RpcError | RpcData "(object \<times> object) list"

text \<open>The remote call: it fails when the store cannot be reached, else it runs the function.\<close>

definition rpc_get_public_website :: "bool \<Rightarrow> database \<Rightarrow> jsstring \<Rightarrow> rpc_reply" where
  "rpc_get_public_website reachable db website_subdomain =
     (if reachable then RpcData (get_public_website db website_subdomain) else RpcError)"

text \<open>The state of the page component; \<open>loading\<close> of the source is \<open>siteLoading\<close>.\<close>

record site_state =
  siteData :: "(object \<times> object) option"
  siteLoading :: bool
  siteError :: "jsstring option"

definition initialSite :: site_state where
  "initialSite = \<lparr>siteData = None, siteLoading = True, siteError = None\<rparr>"

definition siteNotFound :: jsstring where
  "siteNotFound = ascii ''Site non trouv'' @ [0xE9]"

definition siteLoadFailed :: jsstring where
  "siteLoadFailed = ascii ''Erreur lors du chargement du site''"

text \<open>\<open>loadWebsite\<close>, run by the effect of the page for the subdomain of the route.\<close>

definition loadWebsite :: "(jsstring \<Rightarrow> rpc_reply) \<Rightarrow> jsstring option \<Rightarrow> site_state \<Rightarrow> site_state" where
  "loadWebsite rpc subdomain st =
     (case subdomain of
        None \<Rightarrow> st\<lparr>siteError := Some siteNotFound, siteLoading := False\<rparr>
      | Some sub \<Rightarrow>
          if sub = [] then st\<lparr>siteError := Some siteNotFound, siteLoading := False\<rparr>
          else
            (case rpc sub of
               RpcError \<Rightarrow> st\<lparr>siteError := Some siteLoadFailed, siteLoading := False\<rparr>
             | RpcData result \<Rightarrow>
                 (case result of
                    [] \<Rightarrow> st\<lparr>siteError := Some siteNotFound, siteLoading := False\<rparr>
                  | r # rs \<Rightarrow> st\<lparr>siteData := Some r, siteLoading := False\<rparr>)))"

text \<open>
  What the component returns: the spinner, the 404 page with its message, or the site
  built from the record.
\<close>

datatype view = Spinner | NotFoundPage jsstring | SitePage object object

definition render :: "site_state \<Rightarrow> view" where
  "render st =
     (if siteLoading st then Spinner
      else if \<not> missing (siteError st) \<or> siteData st = None then
        NotFoundPage (case siteError st of
                        None \<Rightarrow> siteNotFound
                      | Some e \<Rightarrow> if e = [] then siteNotFound else e)
      else
        (case siteData st of
           None \<Rightarrow> NotFoundPage siteNotFound
         | Some (website_config, restaurant) \<Rightarrow> SitePage website_config restaurant))"

text \<open>The record of a subdomain that the renderer may show, in the words of the specification.\<close>

definition publicRecord :: "database \<Rightarrow> jsstring \<Rightarrow> object \<times> object \<Rightarrow> bool" where
  "publicRecord db sub rec \<longleftrightarrow>
     (\<exists>rw \<in> set (restaurant_websites db). \<exists>r \<in> set (restaurants db).
        rec = (rw, restaurant_data r)
        \<and> col rw ''subdomain'' = JStr sub
        \<and> col rw ''is_published'' = JBool True
        \<and> col r ''id'' = col rw ''restaurant_id''
        \<and> col r ''is_active'' = JBool True)"

section \<open>Notions of the specification and examples\<close>

text \<open>The substring after the first comma.\<close>

definition afterFirstComma :: "jsstring \<Rightarrow> jsstring" where
  "afterFirstComma url = drop 1 (dropWhile (\<lambda>c. c \<noteq> comma) url)"

text \<open>
  The outcome of the external call that the handler makes for a request, \<open>None\<close> when
  it makes none.
\<close>

definition externalCall :: "environment \<Rightarrow> request \<Rightarrow> fetch_result option" where
  "externalCall env req =
     (case snd (handler env req) of
        [] \<Rightarrow> None
      | (key, content) # calls \<Rightarrow> Some (fetch env key content))"

text \<open>The image field that can be extracted from a body: a string that is not empty.\<close>

fun imageField :: "api_body \<Rightarrow> jsstring option" where
  "imageField (Json data) =
     (if nullish data then None
      else (case imageUrlOf data of
              JStr url \<Rightarrow> if url = [] then None else Some url
            | _ \<Rightarrow> None))"
| "imageField other = None"

text \<open>A body of the external API that carries \<open>url\<close> as its image URL.\<close>

definition bodyWithUrl :: "jsval \<Rightarrow> jsval" where
  "bodyWithUrl url =
     JObj [(ascii ''choices'',
       JArr [JObj [(ascii ''message'',
         JObj [(ascii ''images'',
           JArr [JObj [(ascii ''image_url'', JObj [(ascii ''url'', url)])]])])]])]"

text \<open>An environment whose key is set and whose external API gives one answer to every call.\<close>

definition exampleEnv :: "fetch_result \<Rightarrow> environment" where
  "exampleEnv answer =
     \<lparr>toLowerCase = asciiToLowerCase, LOVABLE_API_KEY = Some (ascii ''secret''),
      fetch = (\<lambda>key content. answer)\<rparr>"

definition exampleRequest :: request where
  "exampleRequest =
     \<lparr>reqMethod = ascii ''POST'', json = Some (JStr (ascii ''a red bicycle''), JUndefined)\<rparr>"

text \<open>The id of the in-memory config, \<open>config?.id\<close>.\<close>

definition configId :: "hook_state \<Rightarrow> jsval" where
  "configId st = (case config st of None \<Rightarrow> JUndefined | Some cfg \<Rightarrow> field cfg (ascii ''id''))"

text \<open>A property of the in-memory config, \<open>config?.[k]\<close>.\<close>

definition configField :: "hook_state \<Rightarrow> string \<Rightarrow> jsval" where
  "configField st k = (case config st of None \<Rightarrow> JUndefined | Some cfg \<Rightarrow> field cfg (ascii k))"

text \<open>
  A database with one website row for the subdomain \<open>chez-moi\<close> and its restaurant.
\<close>

definition exampleDatabase :: "bool \<Rightarrow> bool \<Rightarrow> database" where
  "exampleDatabase published active =
     \<lparr>restaurant_websites =
        [Map.empty(ascii ''id'' \<mapsto> JStr (ascii ''w1''),
           ascii ''restaurant_id'' \<mapsto> JStr (ascii ''r1''),
           ascii ''subdomain'' \<mapsto> JStr (ascii ''chez-moi''),
           ascii ''is_published'' \<mapsto> JBool published)],
      restaurants =
        [Map.empty(ascii ''id'' \<mapsto> JStr (ascii ''r1''),
           ascii ''name'' \<mapsto> JStr (ascii ''Chez Moi''),
           ascii ''is_active'' \<mapsto> JBool active)]\<rparr>"

text \<open>A store that gives one answer to every call.\<close>

definition constStore :: "store_reply \<Rightarrow> store_op \<Rightarrow> store_reply" where
  "constStore reply op = reply"

section \<open>Facts about strings and regular expressions\<close>

lemma startsWith_append: "startsWith (p @ s) p"
  by (induction p) auto

lemma startsWith_set: "startsWith s t \<Longrightarrow> set t \<subseteq> set s"
  by (induction s t rule: startsWith.induct) (auto split: if_splits)

lemma includesText_set: "includesText s t \<Longrightarrow> set t \<subseteq> set s"
proof (induction s)
  case Nil
  then show ?case by (cases t) auto
next
  case (Cons c cs)
  show ?case
  proof (cases "startsWith (c # cs) t")
    case True
    then show ?thesis by (rule startsWith_set)
  next
    case False
    with Cons.prems have "includesText cs t" by simp
    with Cons.IH show ?thesis by auto
  qed
qed

lemma startsWith_neq: "c \<noteq> p \<Longrightarrow> startsWith (c # cs) (p # ps) = False"
  by simp

lemma startsWith_eq: "startsWith (c # cs) (c # ps) = startsWith cs ps"
  by simp

lemma includesText_neq: "c \<noteq> p \<Longrightarrow> includesText (c # cs) (p # ps) = includesText cs (p # ps)"
  by simp

lemma includesText_eq:
  "includesText (c # cs) (c # ps) = (if startsWith cs ps then True else includesText cs (c # ps))"
  by simp

lemmas evalText = startsWith_neq startsWith_eq includesText_neq includesText_eq

lemma matchesAt_self: "matchesAt w (w @ b)"
  by (induction w) auto

lemma regexTest_here: "alt \<in> set alts \<Longrightarrow> matchesAt alt s \<Longrightarrow> regexTest alts s"
  by (cases s) (auto simp: list_ex_iff)

lemma regexTest_append: "regexTest alts s \<Longrightarrow> regexTest alts (a @ s)"
  by (induction a) auto

lemma regexTest_infix: "alt \<in> set alts \<Longrightarrow> regexTest alts (a @ alt @ b)"
  by (rule regexTest_append, rule regexTest_here[where alt = alt]) (auto simp: matchesAt_self)

lemma keepsLowerAscii_asciiToLowerCase: "keepsLowerAscii asciiToLowerCase"
  unfolding keepsLowerAscii_def asciiToLowerCase_def
proof (intro allI impI)
  fix a w b :: jsstring
  assume h: "\<forall>c\<in>set w. 0x61 \<le> c \<and> c \<le> 0x7A"
  let ?f = "\<lambda>c::nat. if 0x41 \<le> c \<and> c \<le> 0x5A then c + 0x20 else c"
  have "map ?f w = w"
  proof (rule map_idI)
    fix c assume "c \<in> set w"
    with h have "0x61 \<le> c" by blast
    then show "?f c = c" by simp
  qed
  then have "map ?f (a @ w @ b) = map ?f a @ w @ map ?f b" by simp
  then show "\<exists>a' b'. map ?f (a @ w @ b) = a' @ w @ b'" by blast
qed

lemma painting_isArtistic:
  assumes "keepsLowerAscii lc"
  shows "isArtistic lc (a @ ascii ''painting'' @ b)"
proof -
  have "\<forall>c\<in>set (ascii ''painting''). 0x61 \<le> c \<and> c \<le> 0x7A"
    by (simp add: ascii_def)
  with assms obtain a' b' where
    "lc (a @ ascii ''painting'' @ b) = a' @ ascii ''painting'' @ b'"
    unfolding keepsLowerAscii_def by blast
  moreover have "ascii ''painting'' \<in> set artisticRe"
    by (simp add: artisticRe_def)
  ultimately show ?thesis
    by (simp add: isArtistic_def regexTest_infix)
qed

section \<open>The prompt enhancer: classification and language\<close>

lemma styleOf_templateFor: "styleOf lc p lang = templateFor lang (categoryOf lc p)"
  by (simp add: styleOf_def templateFor_def categoryOf_def selectCategory_def)

lemma enhancePrompt_style:
  "enhancePrompt lc p lang = fst (styleOf lc p lang) @ p @ snd (styleOf lc p lang)"
  by (simp add: enhancePrompt_def split: prod.splits)

text \<open>
  C1. \<open>enhancePrompt\<close> computes the six predicates independently and takes the one
  template that the precedence artistic, logo, 3D, minimal, food, photo, generic selects
  for the language.  A prompt that matches an artistic keyword gets the artistic prefix;
  so does every prompt that contains \<open>painting\<close>, for a \<open>toLowerCase\<close> that keeps
  lower-case ASCII.  A prompt that matches a logo and a minimal keyword and no artistic
  keyword gets the logo template.
\<close>

theorem enhancePrompt_precedence:
  "styleOf lc p lang =
     templateFor lang (selectCategory (isArtistic lc p) (isPhoto lc p) (isFood lc p)
       (isLogo lc p) (is3D lc p) (isMinimal lc p))
   \<and> (isArtistic lc q \<longrightarrow>
        startsWith (enhancePrompt lc q lang) (fst (templateFor lang Artistic)))
   \<and> (keepsLowerAscii lc \<longrightarrow>
        startsWith (enhancePrompt lc (a @ ascii ''painting'' @ b) lang)
          (fst (templateFor lang Artistic)))
   \<and> (isLogo lc r \<and> isMinimal lc r \<and> \<not> isArtistic lc r \<longrightarrow>
        styleOf lc r lang = templateFor lang Logo)"
proof (intro conjI impI)
  show "styleOf lc p lang =
     templateFor lang (selectCategory (isArtistic lc p) (isPhoto lc p) (isFood lc p)
       (isLogo lc p) (is3D lc p) (isMinimal lc p))"
    using styleOf_templateFor[of lc p lang] by (simp add: categoryOf_def)
next
  assume "isArtistic lc q"
  then have "styleOf lc q lang = templateFor lang Artistic"
    by (simp add: styleOf_templateFor categoryOf_def selectCategory_def)
  then show "startsWith (enhancePrompt lc q lang) (fst (templateFor lang Artistic))"
    by (simp add: enhancePrompt_style startsWith_append)
next
  assume "keepsLowerAscii lc"
  then have "isArtistic lc (a @ ascii ''painting'' @ b)"
    by (rule painting_isArtistic)
  then have "styleOf lc (a @ ascii ''painting'' @ b) lang = templateFor lang Artistic"
    by (simp add: styleOf_templateFor categoryOf_def selectCategory_def)
  then show "startsWith (enhancePrompt lc (a @ ascii ''painting'' @ b) lang)
      (fst (templateFor lang Artistic))"
    by (simp add: enhancePrompt_style startsWith_append)
next
  assume "isLogo lc r \<and> isMinimal lc r \<and> \<not> isArtistic lc r"
  then show "styleOf lc r lang = templateFor lang Logo"
    by (simp add: styleOf_templateFor categoryOf_def selectCategory_def)
qed

theorem enhancePrompt_precedence_witness:
  "isArtistic asciiToLowerCase (ascii ''An Oil Painting of a cat'')
   \<and> keepsLowerAscii asciiToLowerCase
   \<and> isLogo asciiToLowerCase (ascii ''A simple LOGO for my shop'')
   \<and> isMinimal asciiToLowerCase (ascii ''A simple LOGO for my shop'')
   \<and> \<not> isArtistic asciiToLowerCase (ascii ''A simple LOGO for my shop'')
   \<and> startsWith (enhancePrompt asciiToLowerCase (ascii ''An Oil Painting of a cat'') (JStr (ascii ''en'')))
        (ascii ''Beautiful artistic creation, masterful technique: '')
   \<and> startsWith (enhancePrompt asciiToLowerCase (ascii ''my '' @ ascii ''painting'' @ ascii ''s'') (JStr (ascii ''en'')))
        (ascii ''Beautiful artistic creation, masterful technique: '')
   \<and> styleOf asciiToLowerCase (ascii ''A simple LOGO for my shop'') (JStr (ascii ''en'')) = en_logo"
proof -
  have h1: "isArtistic asciiToLowerCase (ascii ''An Oil Painting of a cat'')"
    by (simp add: isArtistic_def artisticRe_def asciiToLowerCase_def ascii_def canonicalize_def)
  have h2: "isLogo asciiToLowerCase (ascii ''A simple LOGO for my shop'')"
    by (simp add: isLogo_def logoRe_def asciiToLowerCase_def ascii_def canonicalize_def)
  have h3: "isMinimal asciiToLowerCase (ascii ''A simple LOGO for my shop'')"
    by (simp add: isMinimal_def minimalRe_def asciiToLowerCase_def ascii_def canonicalize_def)
  have h4: "\<not> isArtistic asciiToLowerCase (ascii ''A simple LOGO for my shop'')"
    by (simp add: isArtistic_def artisticRe_def asciiToLowerCase_def ascii_def canonicalize_def)
  have t: "fst (templateFor (JStr (ascii ''en'')) Artistic)
             = ascii ''Beautiful artistic creation, masterful technique: ''"
    "templateFor (JStr (ascii ''en'')) Logo = en_logo"
    by (simp_all add: templateFor_def en_artistic_def)
  from enhancePrompt_precedence[of asciiToLowerCase "[]" "JStr (ascii ''en'')"
      "ascii ''An Oil Painting of a cat''" "ascii ''my ''" "ascii ''s''"
      "ascii ''A simple LOGO for my shop''"]
    h1 h2 h3 h4 keepsLowerAscii_asciiToLowerCase t
  show ?thesis by simp
qed

lemmas templateDefs =
  en_artistic_def en_logo_def en_render3d_def en_minimal_def en_food_def en_photo_def
  en_generic_def fr_artistic_def fr_logo_def fr_render3d_def fr_minimal_def fr_food_def
  fr_photo_def fr_generic_def

lemma french_has_e_acute: "\<forall>t \<in> set (styleTexts frenchTemplate). 0xE9 \<in> set t"
  by (simp add: templateDefs ascii_def styleTexts_def categories_def)

lemma english_has_no_e_acute: "\<forall>t \<in> set (styleTexts englishTemplate). 0xE9 \<notin> set t"
  by (simp add: templateDefs ascii_def styleTexts_def categories_def)

lemma category_listed: "c \<in> set categories"
  by (cases c) (simp_all add: categories_def)

lemma template_in_styleTexts:
  "fst (table c) \<in> set (styleTexts table)" "snd (table c) \<in> set (styleTexts table)"
  using category_listed[of c] by (auto simp: styleTexts_def)

lemma no_french_in_english:
  assumes "t \<in> set (styleTexts frenchTemplate)" and "s \<in> set (styleTexts englishTemplate)"
  shows "\<not> includesText s t"
proof
  assume "includesText s t"
  then have "set t \<subseteq> set s" by (rule includesText_set)
  moreover from assms(1) french_has_e_acute have "0xE9 \<in> set t" by blast
  moreover from assms(2) english_has_no_e_acute have "0xE9 \<notin> set s" by blast
  ultimately show False by blast
qed

lemma no_english_in_artistic:
  "\<forall>t \<in> set (styleTexts englishTemplate).
     \<not> includesText (fst fr_artistic) t \<and> \<not> includesText (snd fr_artistic) t"
  by (simp add: templateDefs ascii_def styleTexts_def categories_def evalText
        del: includesText.simps(2) startsWith.simps(3))

lemma no_english_in_logo:
  "\<forall>t \<in> set (styleTexts englishTemplate).
     \<not> includesText (fst fr_logo) t \<and> \<not> includesText (snd fr_logo) t"
  by (simp add: templateDefs ascii_def styleTexts_def categories_def evalText
        del: includesText.simps(2) startsWith.simps(3))

lemma no_english_in_render3d:
  "\<forall>t \<in> set (styleTexts englishTemplate).
     \<not> includesText (fst fr_render3d) t \<and> \<not> includesText (snd fr_render3d) t"
  by (simp add: templateDefs ascii_def styleTexts_def categories_def evalText
        del: includesText.simps(2) startsWith.simps(3))

lemma no_english_in_minimal:
  "\<forall>t \<in> set (styleTexts englishTemplate).
     \<not> includesText (fst fr_minimal) t \<and> \<not> includesText (snd fr_minimal) t"
  by (simp add: templateDefs ascii_def styleTexts_def categories_def evalText
        del: includesText.simps(2) startsWith.simps(3))

lemma no_english_in_food:
  "\<forall>t \<in> set (styleTexts englishTemplate).
     \<not> includesText (fst fr_food) t \<and> \<not> includesText (snd fr_food) t"
  by (simp add: templateDefs ascii_def styleTexts_def categories_def evalText
        del: includesText.simps(2) startsWith.simps(3))

lemma no_english_in_photo:
  "\<forall>t \<in> set (styleTexts englishTemplate).
     \<not> includesText (fst fr_photo) t \<and> \<not> includesText (snd fr_photo) t"
  by (simp add: templateDefs ascii_def styleTexts_def categories_def evalText
        del: includesText.simps(2) startsWith.simps(3))

lemma no_english_in_generic:
  "\<forall>t \<in> set (styleTexts englishTemplate).
     \<not> includesText (fst fr_generic) t \<and> \<not> includesText (snd fr_generic) t"
  by (simp add: templateDefs ascii_def styleTexts_def categories_def evalText
        del: includesText.simps(2) startsWith.simps(3))

lemma no_english_in_french:
  assumes "t \<in> set (styleTexts englishTemplate)"
  shows "\<not> includesText (fst (frenchTemplate c)) t \<and> \<not> includesText (snd (frenchTemplate c)) t"
  using assms no_english_in_artistic no_english_in_logo no_english_in_render3d
    no_english_in_minimal no_english_in_food no_english_in_photo no_english_in_generic
  by (cases c) simp_all

lemma orElse_en: "orElse language (JStr (ascii ''fr'')) = JStr (ascii ''en'') \<longleftrightarrow> language = JStr (ascii ''en'')"
  by (cases language) (auto simp: orElse_def ascii_def)

text \<open>
  C2. The enhanced prompt is the style prefix, the original prompt and the style suffix
  of the selected category in the language's templates.  For the language \<open>en\<close> these
  are the English templates, and no French style text occurs in the prefix or the
  suffix; for every other value they are the French templates, and no English style text
  occurs in them.  The handler passes \<open>language || 'fr'\<close>, which is \<open>en\<close> only when
  \<open>language\<close> is, so a missing language takes the French templates.
\<close>

theorem enhancePrompt_language:
  "enhancePrompt lc p lang = fst (styleOf lc p lang) @ p @ snd (styleOf lc p lang)
   \<and> (lang1 = JStr (ascii ''en'') \<longrightarrow>
        styleOf lc p1 lang1 = englishTemplate (categoryOf lc p1)
        \<and> (\<forall>t \<in> set (styleTexts frenchTemplate).
              \<not> includesText (fst (styleOf lc p1 lang1)) t
              \<and> \<not> includesText (snd (styleOf lc p1 lang1)) t))
   \<and> (lang2 \<noteq> JStr (ascii ''en'') \<longrightarrow>
        styleOf lc p2 lang2 = frenchTemplate (categoryOf lc p2)
        \<and> (\<forall>t \<in> set (styleTexts englishTemplate).
              \<not> includesText (fst (styleOf lc p2 lang2)) t
              \<and> \<not> includesText (snd (styleOf lc p2 lang2)) t))
   \<and> (\<not> truthy language \<longrightarrow>
        styleOf lc p3 (orElse language (JStr (ascii ''fr''))) = frenchTemplate (categoryOf lc p3))
   \<and> (orElse language' (JStr (ascii ''fr'')) = JStr (ascii ''en'') \<longleftrightarrow> language' = JStr (ascii ''en''))"
proof (intro conjI impI ballI)
  show "enhancePrompt lc p lang = fst (styleOf lc p lang) @ p @ snd (styleOf lc p lang)"
    by (rule enhancePrompt_style)
next
  assume "lang1 = JStr (ascii ''en'')"
  then show "styleOf lc p1 lang1 = englishTemplate (categoryOf lc p1)"
    by (simp add: styleOf_templateFor templateFor_def)
next
  fix t assume "lang1 = JStr (ascii ''en'')" and "t \<in> set (styleTexts frenchTemplate)"
  then show "\<not> includesText (fst (styleOf lc p1 lang1)) t"
    by (simp add: styleOf_templateFor templateFor_def no_french_in_english template_in_styleTexts)
next
  fix t assume "lang1 = JStr (ascii ''en'')" and "t \<in> set (styleTexts frenchTemplate)"
  then show "\<not> includesText (snd (styleOf lc p1 lang1)) t"
    by (simp add: styleOf_templateFor templateFor_def no_french_in_english template_in_styleTexts)
next
  assume "lang2 \<noteq> JStr (ascii ''en'')"
  then show "styleOf lc p2 lang2 = frenchTemplate (categoryOf lc p2)"
    by (simp add: styleOf_templateFor templateFor_def)
next
  fix t assume "lang2 \<noteq> JStr (ascii ''en'')" and "t \<in> set (styleTexts englishTemplate)"
  then show "\<not> includesText (fst (styleOf lc p2 lang2)) t"
    by (simp add: styleOf_templateFor templateFor_def no_english_in_french)
next
  fix t assume "lang2 \<noteq> JStr (ascii ''en'')" and "t \<in> set (styleTexts englishTemplate)"
  then show "\<not> includesText (snd (styleOf lc p2 lang2)) t"
    by (simp add: styleOf_templateFor templateFor_def no_english_in_french)
next
  assume "\<not> truthy language"
  then have "orElse language (JStr (ascii ''fr'')) = JStr (ascii ''fr'')"
    by (simp add: orElse_def)
  then show "styleOf lc p3 (orElse language (JStr (ascii ''fr''))) = frenchTemplate (categoryOf lc p3)"
    by (simp add: styleOf_templateFor templateFor_def ascii_def)
next
  show "orElse language' (JStr (ascii ''fr'')) = JStr (ascii ''en'') \<longleftrightarrow> language' = JStr (ascii ''en'')"
    by (rule orElse_en)
qed

theorem enhancePrompt_language_witness:
  "JStr (ascii ''de'') \<noteq> JStr (ascii ''en'') \<and> \<not> truthy JUndefined
   \<and> fr_food \<in> set (map frenchTemplate categories)
   \<and> styleOf asciiToLowerCase (ascii ''a red bicycle'') (JStr (ascii ''en'')) = en_generic
   \<and> \<not> includesText (snd (styleOf asciiToLowerCase (ascii ''a red bicycle'') (JStr (ascii ''en'')))) (snd fr_food)
   \<and> styleOf asciiToLowerCase (ascii ''a red bicycle'') (JStr (ascii ''de'')) = fr_generic
   \<and> \<not> includesText (fst (styleOf asciiToLowerCase (ascii ''a red bicycle'') (JStr (ascii ''de'')))) (fst en_photo)
   \<and> styleOf asciiToLowerCase (ascii ''a red bicycle'') (orElse JUndefined (JStr (ascii ''fr''))) = fr_generic"
proof -
  have c: "categoryOf asciiToLowerCase (ascii ''a red bicycle'') = Generic"
    by (simp add: categoryOf_def selectCategory_def isArtistic_def isPhoto_def isFood_def
          isLogo_def is3D_def isMinimal_def artisticRe_def photoRe_def foodRe_def logoRe_def
          render3dRe_def minimalRe_def asciiToLowerCase_def ascii_def canonicalize_def)
  have m: "snd fr_food \<in> set (styleTexts frenchTemplate)" "fst en_photo \<in> set (styleTexts englishTemplate)"
    by (simp_all add: styleTexts_def categories_def)
  have d: "JStr (ascii ''de'') \<noteq> JStr (ascii ''en'')"
    by (simp add: ascii_def)
  note T = enhancePrompt_language[of asciiToLowerCase "[]" JNull "JStr (ascii ''en'')"
      "ascii ''a red bicycle''" "JStr (ascii ''de'')" "ascii ''a red bicycle''" JUndefined
      "ascii ''a red bicycle''" JNull]
  from T have en: "styleOf asciiToLowerCase (ascii ''a red bicycle'') (JStr (ascii ''en''))
      = englishTemplate (categoryOf asciiToLowerCase (ascii ''a red bicycle''))"
    and noFr: "\<forall>t \<in> set (styleTexts frenchTemplate).
        \<not> includesText (fst (styleOf asciiToLowerCase (ascii ''a red bicycle'') (JStr (ascii ''en'')))) t
        \<and> \<not> includesText (snd (styleOf asciiToLowerCase (ascii ''a red bicycle'') (JStr (ascii ''en'')))) t"
    by blast+
  from T d have fr: "styleOf asciiToLowerCase (ascii ''a red bicycle'') (JStr (ascii ''de''))
      = frenchTemplate (categoryOf asciiToLowerCase (ascii ''a red bicycle''))"
    and noEn: "\<forall>t \<in> set (styleTexts englishTemplate).
        \<not> includesText (fst (styleOf asciiToLowerCase (ascii ''a red bicycle'') (JStr (ascii ''de'')))) t
        \<and> \<not> includesText (snd (styleOf asciiToLowerCase (ascii ''a red bicycle'') (JStr (ascii ''de'')))) t"
    by blast+
  from T have dflt: "styleOf asciiToLowerCase (ascii ''a red bicycle'') (orElse JUndefined (JStr (ascii ''fr'')))
      = frenchTemplate (categoryOf asciiToLowerCase (ascii ''a red bicycle''))"
    by simp
  from noFr m(1) have a: "\<not> includesText (snd (styleOf asciiToLowerCase (ascii ''a red bicycle'') (JStr (ascii ''en'')))) (snd fr_food)"
    by blast
  from noEn m(2) have b: "\<not> includesText (fst (styleOf asciiToLowerCase (ascii ''a red bicycle'') (JStr (ascii ''de'')))) (fst en_photo)"
    by blast
  from en fr dflt a b c d show ?thesis by (simp add: categories_def)
qed

section \<open>The edge function: extraction of the image and classification of responses\<close>

lemma split_no_sep: "sep \<notin> set s \<Longrightarrow> split sep s = [s]"
  by (induction s) auto

lemma split_at_sep: "sep \<notin> set a \<Longrightarrow> split sep (a @ sep # b) = a # split sep b"
  by (induction a) auto

lemma one_separator:
  assumes "count_list url sep = 1"
  shows "\<exists>a b. url = a @ sep # b \<and> sep \<notin> set a \<and> sep \<notin> set b"
  using assms
proof (induction url)
  case Nil
  then show ?case by simp
next
  case (Cons c cs)
  show ?case
  proof (cases "c = sep")
    case True
    with Cons.prems have "count_list cs sep = 0" by simp
    then have "sep \<notin> set cs" by (simp add: count_list_0_iff)
    with True show ?thesis by (intro exI[of _ "[]"] exI[of _ cs]) simp
  next
    case False
    with Cons.prems have "count_list cs sep = 1" by simp
    from Cons.IH[OF this] obtain a b where
      "cs = a @ sep # b" "sep \<notin> set a" "sep \<notin> set b" by blast
    with False show ?thesis by (intro exI[of _ "c # a"] exI[of _ b]) simp
  qed
qed

lemma second_split_one_comma:
  assumes "count_list url comma = 1"
  shows "second (split comma url) = Some (afterFirstComma url)"
proof -
  from one_separator[OF assms] obtain a b where
    u: "url = a @ comma # b" and a: "comma \<notin> set a" and b: "comma \<notin> set b" by blast
  have "split comma url = [a, b]"
    using u a b by (simp add: split_at_sep split_no_sep)
  moreover have "dropWhile (\<lambda>c. c \<noteq> comma) (a @ comma # b) = comma # b"
    using a by (subst dropWhile_append2) auto
  ultimately show ?thesis
    using u by (simp add: afterFirstComma_def)
qed

lemma split_not_empty: "split sep s \<noteq> []"
  by (induction s) (auto split: list.splits)

lemma split_has_second: "sep \<in> set s \<Longrightarrow> second (split sep s) \<noteq> None"
proof (induction s)
  case Nil
  then show ?case by simp
next
  case (Cons c cs)
  show ?case
  proof (cases "c = sep")
    case True
    then show ?thesis using split_not_empty[of sep cs] by (cases "split sep cs") auto
  next
    case False
    with Cons have "second (split sep cs) \<noteq> None" by simp
    then show ?thesis using False
      by (cases "split sep cs" rule: second.cases) auto
  qed
qed

lemma imageUrlOf_bodyWithUrl: "imageUrlOf (bodyWithUrl u) = u"
  by (simp add: imageUrlOf_def bodyWithUrl_def optional_def nullish_def ascii_def)

lemma respond_imageField:
  "respond data =
     (case imageField (Json data) of
        Some url \<Rightarrow> Inr \<lparr>status = 200, body = ImageBody (imageBase64Of url)\<rparr>
      | None \<Rightarrow> Inl (if \<not> nullish data \<and> \<not> truthy (imageUrlOf data) then NoImageGenerated
                     else RuntimeError))"
  by (cases "imageUrlOf data") (auto simp: respond_def Let_def)

text \<open>The response that the \<open>catch\<close> clause makes of what the \<open>try\<close> block gave.\<close>

lemma handler_no_call:
  assumes "externalCall env req = None"
  shows "handler env req = (\<lparr>status = 200, body = NullBody\<rparr>, []) \<and> reqMethod req = ascii ''OPTIONS''
       \<or> (\<exists>e. handler env req = (\<lparr>status = 500, body = ErrorBody (MessageOf e)\<rparr>, [])
             \<and> reqMethod req \<noteq> ascii ''OPTIONS'')"
  using assms
  by (auto simp: externalCall_def handler_def tryBlock_def Let_def
      split: option.splits prod.splits jsval.splits fetch_result.splits sum.splits if_splits)

lemma handler_call:
  assumes "externalCall env req = Some answer"
  shows "reqMethod req \<noteq> ascii ''OPTIONS'' \<and> \<not> missing (LOVABLE_API_KEY env)
       \<and> fst (handler env req) =
           (case answer of
              FetchRejected \<Rightarrow> \<lparr>status = 500, body = ErrorBody (MessageOf RuntimeError)\<rparr>
            | FetchResolved st b \<Rightarrow>
                (case classify st b of
                   Inr resp \<Rightarrow> resp
                 | Inl err \<Rightarrow> \<lparr>status = 500, body = ErrorBody (MessageOf err)\<rparr>))"
  using assms
  by (auto simp: externalCall_def handler_def tryBlock_def Let_def
      split: option.splits prod.splits jsval.splits fetch_result.splits sum.splits if_splits)

lemma handler_missing_key:
  assumes "reqMethod req \<noteq> ascii ''OPTIONS''" and "missing (LOVABLE_API_KEY env)"
  shows "\<exists>e. handler env req = (\<lparr>status = 500, body = ErrorBody (MessageOf e)\<rparr>, [])"
  using assms
  by (cases "LOVABLE_API_KEY env")
     (auto simp: handler_def tryBlock_def split: option.splits prod.splits)

lemma classify_not_ok:
  assumes "\<not> ok st"
  shows "classify st b =
     (if b = Unreadable then Inl RuntimeError
      else if st = 429 then Inr \<lparr>status = 429, body = ErrorBody RateLimitExceeded\<rparr>
      else if st = 402 then Inr \<lparr>status = 402, body = ErrorBody PaymentRequired\<rparr>
      else Inl (AIError st))"
  using assms by (cases b) (simp_all add: classify_def)

lemma classify_ok:
  assumes "ok st"
  shows "classify st b =
     (case imageField b of
        Some url \<Rightarrow> Inr \<lparr>status = 200, body = ImageBody (imageBase64Of url)\<rparr>
      | None \<Rightarrow> Inl (case b of
                       Json data \<Rightarrow> if \<not> nullish data \<and> \<not> truthy (imageUrlOf data)
                                     then NoImageGenerated else RuntimeError
                     | _ \<Rightarrow> RuntimeError))"
  using assms by (cases b) (simp_all add: classify_def respond_imageField split: option.splits)

lemma handler_image:
  assumes "externalCall env req = Some (FetchResolved st b)" and "ok st"
    and "imageField b = Some url"
  shows "fst (handler env req) = \<lparr>status = 200, body = ImageBody (imageBase64Of url)\<rparr>"
  using handler_call[OF assms(1)] assms(2,3) by (simp add: classify_ok)

lemma handler_rejected_status:
  assumes "externalCall env req = Some (FetchResolved st b)" and "\<not> ok st"
  shows "fst (handler env req) =
     (if b = Unreadable then \<lparr>status = 500, body = ErrorBody (MessageOf RuntimeError)\<rparr>
      else if st = 429 then \<lparr>status = 429, body = ErrorBody RateLimitExceeded\<rparr>
      else if st = 402 then \<lparr>status = 402, body = ErrorBody PaymentRequired\<rparr>
      else \<lparr>status = 500, body = ErrorBody (MessageOf (AIError st))\<rparr>)"
  using handler_call[OF assms(1)] assms(2) by (simp add: classify_not_ok)

lemma handler_no_image:
  assumes "externalCall env req = Some (FetchResolved st b)" and "ok st"
    and "imageField b = None"
  shows "\<exists>e. fst (handler env req) = \<lparr>status = 500, body = ErrorBody (MessageOf e)\<rparr>"
  using handler_call[OF assms(1)] assms(2,3) by (simp add: classify_ok)

lemma handler_statuses:
  "(status (fst (handler env req)) = 200 \<and> body (fst (handler env req)) = NullBody
      \<and> externalCall env req = None)
   \<or> (\<exists>m. status (fst (handler env req)) \<in> {402, 429, 500}
         \<and> body (fst (handler env req)) = ErrorBody m)
   \<or> (\<exists>st b url. externalCall env req = Some (FetchResolved st b) \<and> ok st
         \<and> imageField b = Some url
         \<and> fst (handler env req) = \<lparr>status = 200, body = ImageBody (imageBase64Of url)\<rparr>)"
proof (cases "externalCall env req")
  case None
  from handler_no_call[OF this] show ?thesis using None by auto
next
  case (Some answer)
  show ?thesis
  proof (cases answer)
    case FetchRejected
    with handler_call[OF Some] show ?thesis by simp
  next
    case (FetchResolved st b)
    show ?thesis
    proof (cases "ok st")
      case False
      from handler_rejected_status[OF Some[unfolded FetchResolved] False]
      show ?thesis by (auto split: if_splits)
    next
      case True
      show ?thesis
      proof (cases "imageField b")
        case None
        from handler_no_image[OF Some[unfolded FetchResolved] True None]
        show ?thesis by auto
      next
        case (Some url)
        from handler_image[OF \<open>externalCall env req = Some answer\<close>[unfolded FetchResolved] True Some]
        show ?thesis using \<open>externalCall env req = Some answer\<close> FetchResolved True Some by auto
      qed
    qed
  qed
qed

text \<open>
  C3 (as amended).  When the external call succeeds with a non-empty string as image
  URL, the handler answers 200 with \<open>imageBase64Of url\<close>.  For a URL that starts with
  \<open>data:\<close> and has exactly one comma this is the substring after the comma, so
  \<open>data:image/png;base64,AAA=\<close> gives \<open>AAA=\<close>; a URL that does not start with
  \<open>data:\<close> is returned unchanged.
\<close>

theorem imageBase64_extraction:
  "(externalCall env req = Some (FetchResolved st b) \<and> ok st \<and> imageField b = Some url \<longrightarrow>
      fst (handler env req) = \<lparr>status = 200, body = ImageBody (imageBase64Of url)\<rparr>)
   \<and> (startsWith url1 (ascii ''data:'') \<and> count_list url1 comma = 1 \<longrightarrow>
        imageBase64Of url1 = Some (afterFirstComma url1))
   \<and> (\<not> startsWith url2 (ascii ''data:'') \<longrightarrow> imageBase64Of url2 = Some url2)
   \<and> imageBase64Of (ascii ''data:image/png;base64,AAA='') = Some (ascii ''AAA='')"
proof (intro conjI impI)
  assume "externalCall env req = Some (FetchResolved st b) \<and> ok st \<and> imageField b = Some url"
  then show "fst (handler env req) = \<lparr>status = 200, body = ImageBody (imageBase64Of url)\<rparr>"
    by (simp add: handler_image)
next
  assume "startsWith url1 (ascii ''data:'') \<and> count_list url1 comma = 1"
  then show "imageBase64Of url1 = Some (afterFirstComma url1)"
    by (simp add: imageBase64Of_def second_split_one_comma)
next
  assume "\<not> startsWith url2 (ascii ''data:'')"
  then show "imageBase64Of url2 = Some url2"
    by (simp add: imageBase64Of_def)
next
  show "imageBase64Of (ascii ''data:image/png;base64,AAA='') = Some (ascii ''AAA='')"
    by (simp add: imageBase64Of_def ascii_def comma_def)
qed

lemma exampleEnv_call:
  "externalCall (exampleEnv answer) exampleRequest = Some answer"
  by (simp add: externalCall_def handler_def tryBlock_def exampleEnv_def exampleRequest_def
        ascii_def Let_def split: fetch_result.splits sum.splits)

theorem imageBase64_extraction_witness:
  "ok 200
   \<and> imageField (Json (bodyWithUrl (JStr (ascii ''data:image/png;base64,AAA=''))))
        = Some (ascii ''data:image/png;base64,AAA='')
   \<and> startsWith (ascii ''data:image/png;base64,AAA='') (ascii ''data:'')
   \<and> count_list (ascii ''data:image/png;base64,AAA='') comma = 1
   \<and> \<not> startsWith (ascii ''AAA='') (ascii ''data:'')
   \<and> fst (handler (exampleEnv (FetchResolved 200
              (Json (bodyWithUrl (JStr (ascii ''data:image/png;base64,AAA=''))))))
            exampleRequest)
        = \<lparr>status = 200, body = ImageBody (Some (ascii ''AAA=''))\<rparr>
   \<and> afterFirstComma (ascii ''data:image/png;base64,AAA='') = ascii ''AAA=''
   \<and> imageBase64Of (ascii ''AAA='') = Some (ascii ''AAA='')"
proof -
  have h1: "ok 200" by (simp add: ok_def)
  have h2: "imageField (Json (bodyWithUrl (JStr (ascii ''data:image/png;base64,AAA=''))))
        = Some (ascii ''data:image/png;base64,AAA='')"
    by (simp add: imageUrlOf_bodyWithUrl) (simp add: bodyWithUrl_def nullish_def ascii_def)
  have h3: "startsWith (ascii ''data:image/png;base64,AAA='') (ascii ''data:'')"
    by (simp add: ascii_def)
  have h4: "count_list (ascii ''data:image/png;base64,AAA='') comma = 1"
    by (simp add: ascii_def comma_def)
  have h5: "\<not> startsWith (ascii ''AAA='') (ascii ''data:'')"
    by (simp add: ascii_def)
  have h6: "afterFirstComma (ascii ''data:image/png;base64,AAA='') = ascii ''AAA=''"
    by (simp add: afterFirstComma_def ascii_def comma_def)
  note T = imageBase64_extraction[of
      "exampleEnv (FetchResolved 200 (Json (bodyWithUrl (JStr (ascii ''data:image/png;base64,AAA='')))))"
      exampleRequest 200 "Json (bodyWithUrl (JStr (ascii ''data:image/png;base64,AAA='')))"
      "ascii ''data:image/png;base64,AAA=''" "ascii ''data:image/png;base64,AAA=''" "ascii ''AAA=''"]
  from T h1 h2 exampleEnv_call
  have a: "fst (handler (exampleEnv (FetchResolved 200
              (Json (bodyWithUrl (JStr (ascii ''data:image/png;base64,AAA=''))))))
            exampleRequest)
        = \<lparr>status = 200, body = ImageBody (imageBase64Of (ascii ''data:image/png;base64,AAA=''))\<rparr>"
    by blast
  from T h3 h4 have b: "imageBase64Of (ascii ''data:image/png;base64,AAA='')
      = Some (afterFirstComma (ascii ''data:image/png;base64,AAA=''))"
    by blast
  from T h5 have c: "imageBase64Of (ascii ''AAA='') = Some (ascii ''AAA='')"
    by blast
  from a b c h1 h2 h3 h4 h5 h6 show ?thesis by simp
qed

text \<open>
  The claim C3 as stated fails: for a URL with a second comma the handler returns the
  text between the first two commas, not the substring after the first comma; and the
  empty string, which does not start with \<open>data:\<close>, is not returned but answered with
  the status 500.
\<close>

theorem imageBase64_extraction_counterexample:
  "startsWith (ascii ''data:image/png;base64,AAA=,BBB'') (ascii ''data:'')
   \<and> afterFirstComma (ascii ''data:image/png;base64,AAA=,BBB'') = ascii ''AAA=,BBB''
   \<and> fst (handler (exampleEnv (FetchResolved 200
              (Json (bodyWithUrl (JStr (ascii ''data:image/png;base64,AAA=,BBB''))))))
            exampleRequest)
        = \<lparr>status = 200, body = ImageBody (Some (ascii ''AAA=''))\<rparr>
   \<and> ascii ''AAA='' \<noteq> ascii ''AAA=,BBB''
   \<and> \<not> startsWith [] (ascii ''data:'')
   \<and> fst (handler (exampleEnv (FetchResolved 200 (Json (bodyWithUrl (JStr []))))) exampleRequest)
        = \<lparr>status = 500, body = ErrorBody (MessageOf NoImageGenerated)\<rparr>"
proof -
  have f: "imageField (Json (bodyWithUrl (JStr (ascii ''data:image/png;base64,AAA=,BBB''))))
        = Some (ascii ''data:image/png;base64,AAA=,BBB'')"
    by (simp add: imageUrlOf_bodyWithUrl) (simp add: bodyWithUrl_def nullish_def ascii_def)
  have k: "ok 200" by (simp add: ok_def)
  have a: "fst (handler (exampleEnv (FetchResolved 200
              (Json (bodyWithUrl (JStr (ascii ''data:image/png;base64,AAA=,BBB''))))))
            exampleRequest)
        = \<lparr>status = 200, body = ImageBody (imageBase64Of (ascii ''data:image/png;base64,AAA=,BBB''))\<rparr>"
    by (rule handler_image[OF exampleEnv_call k f])
  have b: "imageBase64Of (ascii ''data:image/png;base64,AAA=,BBB'') = Some (ascii ''AAA='')"
    by (simp add: imageBase64Of_def ascii_def comma_def)
  have c: "afterFirstComma (ascii ''data:image/png;base64,AAA=,BBB'') = ascii ''AAA=,BBB''"
    by (simp add: afterFirstComma_def ascii_def comma_def)
  have d: "classify 200 (Json (bodyWithUrl (JStr []))) = Inl NoImageGenerated"
    by (simp add: classify_def ok_def respond_def imageUrlOf_bodyWithUrl)
       (simp add: bodyWithUrl_def nullish_def)
  have e: "fst (handler (exampleEnv (FetchResolved 200 (Json (bodyWithUrl (JStr []))))) exampleRequest)
        = \<lparr>status = 500, body = ErrorBody (MessageOf NoImageGenerated)\<rparr>"
    using handler_call[OF exampleEnv_call, of "FetchResolved 200 (Json (bodyWithUrl (JStr [])))"] d
    by simp
  from a b c e show ?thesis by (simp add: ascii_def)
qed

text \<open>
  C4 (as amended).  For a request that is not a preflight: a missing credential gives
  500 with \<open>success: false\<close> and no network call; the external statuses 429 and 402,
  when the error body can be read, give 429 and 402 with \<open>success: false\<close>; every other
  status that is not a success, and a success without a non-empty string as image URL,
  give 500 with \<open>success: false\<close>.  The answer is 200 with \<open>success: true\<close> exactly
  when the credential is present and the external call succeeds with an image URL; it
  then carries \<open>imageBase64\<close> when the URL does not start with \<open>data:\<close> or has a comma.
  Every answer has one of the statuses 200, 402, 429 and 500.
\<close>

theorem handler_classification:
  "(reqMethod req1 \<noteq> ascii ''OPTIONS'' \<and> missing (LOVABLE_API_KEY env1) \<longrightarrow>
      status (fst (handler env1 req1)) = 500
      \<and> success (body (fst (handler env1 req1))) = Some False
      \<and> snd (handler env1 req1) = [])
   \<and> (externalCall env2 req2 = Some (FetchResolved 429 b2) \<and> b2 \<noteq> Unreadable \<longrightarrow>
        status (fst (handler env2 req2)) = 429
        \<and> success (body (fst (handler env2 req2))) = Some False)
   \<and> (externalCall env3 req3 = Some (FetchResolved 402 b3) \<and> b3 \<noteq> Unreadable \<longrightarrow>
        status (fst (handler env3 req3)) = 402
        \<and> success (body (fst (handler env3 req3))) = Some False)
   \<and> (externalCall env4 req4 = Some (FetchResolved st4 b4) \<and> \<not> ok st4
        \<and> st4 \<noteq> 429 \<and> st4 \<noteq> 402 \<longrightarrow>
        status (fst (handler env4 req4)) = 500
        \<and> success (body (fst (handler env4 req4))) = Some False)
   \<and> (externalCall env5 req5 = Some (FetchResolved st5 b5) \<and> ok st5
        \<and> imageField b5 = None \<longrightarrow>
        status (fst (handler env5 req5)) = 500
        \<and> success (body (fst (handler env5 req5))) = Some False)
   \<and> ((status (fst (handler env req)) = 200
         \<and> success (body (fst (handler env req))) = Some True)
        \<longleftrightarrow>
        (\<not> missing (LOVABLE_API_KEY env)
         \<and> (\<exists>st b url. externalCall env req = Some (FetchResolved st b) \<and> ok st
               \<and> imageField b = Some url)))
   \<and> (externalCall env6 req6 = Some (FetchResolved st6 b6) \<and> ok st6
        \<and> imageField b6 = Some url6
        \<and> (\<not> startsWith url6 (ascii ''data:'') \<or> comma \<in> set url6) \<longrightarrow>
        imageBase64 (body (fst (handler env6 req6))) \<noteq> None)
   \<and> status (fst (handler env7 req7)) \<in> {200, 402, 429, 500}"
proof (intro conjI impI)
  assume h: "reqMethod req1 \<noteq> ascii ''OPTIONS'' \<and> missing (LOVABLE_API_KEY env1)"
  then obtain e where
    "handler env1 req1 = (\<lparr>status = 500, body = ErrorBody (MessageOf e)\<rparr>, [])"
    using handler_missing_key[of req1 env1] by blast
  then show "status (fst (handler env1 req1)) = 500"
    and "success (body (fst (handler env1 req1))) = Some False"
    and "snd (handler env1 req1) = []"
    by simp_all
next
  assume h: "externalCall env2 req2 = Some (FetchResolved 429 b2) \<and> b2 \<noteq> Unreadable"
  have "\<not> ok 429" by (simp add: ok_def)
  with h have "fst (handler env2 req2) = \<lparr>status = 429, body = ErrorBody RateLimitExceeded\<rparr>"
    using handler_rejected_status[of env2 req2 429 b2] by simp
  then show "status (fst (handler env2 req2)) = 429"
    and "success (body (fst (handler env2 req2))) = Some False"
    by simp_all
next
  assume h: "externalCall env3 req3 = Some (FetchResolved 402 b3) \<and> b3 \<noteq> Unreadable"
  have "\<not> ok 402" by (simp add: ok_def)
  with h have "fst (handler env3 req3) = \<lparr>status = 402, body = ErrorBody PaymentRequired\<rparr>"
    using handler_rejected_status[of env3 req3 402 b3] by simp
  then show "status (fst (handler env3 req3)) = 402"
    and "success (body (fst (handler env3 req3))) = Some False"
    by simp_all
next
  assume h: "externalCall env4 req4 = Some (FetchResolved st4 b4) \<and> \<not> ok st4
        \<and> st4 \<noteq> 429 \<and> st4 \<noteq> 402"
  then have "\<exists>e. fst (handler env4 req4) = \<lparr>status = 500, body = ErrorBody (MessageOf e)\<rparr>"
    using handler_rejected_status[of env4 req4 st4 b4] by simp
  then show "status (fst (handler env4 req4)) = 500"
    and "success (body (fst (handler env4 req4))) = Some False"
    by auto
next
  assume h: "externalCall env5 req5 = Some (FetchResolved st5 b5) \<and> ok st5
        \<and> imageField b5 = None"
  then have "\<exists>e. fst (handler env5 req5) = \<lparr>status = 500, body = ErrorBody (MessageOf e)\<rparr>"
    using handler_no_image[of env5 req5 st5 b5] by simp
  then show "status (fst (handler env5 req5)) = 500"
    and "success (body (fst (handler env5 req5))) = Some False"
    by auto
next
  show "(status (fst (handler env req)) = 200
         \<and> success (body (fst (handler env req))) = Some True)
        \<longleftrightarrow>
        (\<not> missing (LOVABLE_API_KEY env)
         \<and> (\<exists>st b url. externalCall env req = Some (FetchResolved st b) \<and> ok st
               \<and> imageField b = Some url))"
  proof
    assume l: "status (fst (handler env req)) = 200
         \<and> success (body (fst (handler env req))) = Some True"
    with handler_statuses[of env req] obtain st b url where
      c: "externalCall env req = Some (FetchResolved st b)" "ok st" "imageField b = Some url"
      by auto
    from handler_call[OF c(1)] have "\<not> missing (LOVABLE_API_KEY env)" by simp
    with c show "\<not> missing (LOVABLE_API_KEY env)
         \<and> (\<exists>st b url. externalCall env req = Some (FetchResolved st b) \<and> ok st
               \<and> imageField b = Some url)"
      by blast
  next
    assume "\<not> missing (LOVABLE_API_KEY env)
         \<and> (\<exists>st b url. externalCall env req = Some (FetchResolved st b) \<and> ok st
               \<and> imageField b = Some url)"
    then obtain st b url where
      "externalCall env req = Some (FetchResolved st b)" "ok st" "imageField b = Some url"
      by blast
    from handler_image[OF this]
    show "status (fst (handler env req)) = 200
         \<and> success (body (fst (handler env req))) = Some True"
      by simp
  qed
next
  assume h: "externalCall env6 req6 = Some (FetchResolved st6 b6) \<and> ok st6
        \<and> imageField b6 = Some url6
        \<and> (\<not> startsWith url6 (ascii ''data:'') \<or> comma \<in> set url6)"
  then have "fst (handler env6 req6) = \<lparr>status = 200, body = ImageBody (imageBase64Of url6)\<rparr>"
    by (simp add: handler_image)
  moreover from h have "imageBase64Of url6 \<noteq> None"
    using split_has_second[of comma url6] by (auto simp: imageBase64Of_def)
  ultimately show "imageBase64 (body (fst (handler env6 req6))) \<noteq> None"
    by simp
next
  from handler_statuses[of env7 req7]
  show "status (fst (handler env7 req7)) \<in> {200, 402, 429, 500}"
    by auto
qed

lemma imageField_bodyWithUrl:
  "imageField (Json (bodyWithUrl (JStr url))) = (if url = [] then None else Some url)"
  by (simp add: imageUrlOf_bodyWithUrl) (simp add: bodyWithUrl_def nullish_def)

theorem handler_classification_witness:
  "reqMethod exampleRequest \<noteq> ascii ''OPTIONS''
   \<and> missing (LOVABLE_API_KEY ((exampleEnv FetchRejected)\<lparr>LOVABLE_API_KEY := None\<rparr>))
   \<and> handler ((exampleEnv FetchRejected)\<lparr>LOVABLE_API_KEY := None\<rparr>) exampleRequest
        = (\<lparr>status = 500, body = ErrorBody (MessageOf NotConfigured)\<rparr>, [])
   \<and> status (fst (handler (exampleEnv (FetchResolved 429 NotJson)) exampleRequest)) = 429
   \<and> status (fst (handler (exampleEnv (FetchResolved 402 NotJson)) exampleRequest)) = 402
   \<and> \<not> ok 503
   \<and> status (fst (handler (exampleEnv (FetchResolved 503 NotJson)) exampleRequest)) = 500
   \<and> ok 200 \<and> imageField (Json (JObj [])) = None
   \<and> status (fst (handler (exampleEnv (FetchResolved 200 (Json (JObj [])))) exampleRequest)) = 500
   \<and> imageField (Json (bodyWithUrl (JStr (ascii ''AAA='')))) = Some (ascii ''AAA='')
   \<and> \<not> startsWith (ascii ''AAA='') (ascii ''data:'')
   \<and> status (fst (handler (exampleEnv (FetchResolved 200 (Json (bodyWithUrl (JStr (ascii ''AAA='')))))) exampleRequest)) = 200
   \<and> success (body (fst (handler (exampleEnv (FetchResolved 200 (Json (bodyWithUrl (JStr (ascii ''AAA='')))))) exampleRequest))) = Some True
   \<and> imageBase64 (body (fst (handler (exampleEnv (FetchResolved 200 (Json (bodyWithUrl (JStr (ascii ''AAA='')))))) exampleRequest))) \<noteq> None"
proof -
  let ?noKey = "(exampleEnv FetchRejected)\<lparr>LOVABLE_API_KEY := None\<rparr>"
  let ?img = "Json (bodyWithUrl (JStr (ascii ''AAA='')))"
  have m: "reqMethod exampleRequest \<noteq> ascii ''OPTIONS''"
    by (simp add: exampleRequest_def ascii_def)
  have k: "missing (LOVABLE_API_KEY ?noKey)"
    by (simp add: exampleEnv_def)
  have k': "\<not> missing (LOVABLE_API_KEY (exampleEnv (FetchResolved 200 ?img)))"
    by (simp add: exampleEnv_def ascii_def)
  have o: "\<not> ok 503" "ok 200"
    by (simp_all add: ok_def)
  have e: "imageField (Json (JObj [])) = None"
    by (simp add: imageUrlOf_def optional_def nullish_def)
  have i: "imageField ?img = Some (ascii ''AAA='')"
    by (simp add: ascii_def imageField_bodyWithUrl del: imageField.simps)
  have s: "\<not> startsWith (ascii ''AAA='') (ascii ''data:'')"
    by (simp add: ascii_def)
  have n: "handler ?noKey exampleRequest
        = (\<lparr>status = 500, body = ErrorBody (MessageOf NotConfigured)\<rparr>, [])"
    by (simp add: handler_def tryBlock_def exampleEnv_def exampleRequest_def ascii_def)
  note T = handler_classification[of exampleRequest ?noKey
      "exampleEnv (FetchResolved 429 NotJson)" exampleRequest NotJson
      "exampleEnv (FetchResolved 402 NotJson)" exampleRequest NotJson
      "exampleEnv (FetchResolved 503 NotJson)" exampleRequest 503 NotJson
      "exampleEnv (FetchResolved 200 (Json (JObj [])))" exampleRequest 200 "Json (JObj [])"
      "exampleEnv (FetchResolved 200 ?img)" exampleRequest
      "exampleEnv (FetchResolved 200 ?img)" exampleRequest 200 ?img "ascii ''AAA=''"
      "exampleEnv FetchRejected" exampleRequest]
  have c: "\<And>answer. externalCall (exampleEnv answer) exampleRequest = Some answer"
    by (rule exampleEnv_call)
  from T c have t2: "status (fst (handler (exampleEnv (FetchResolved 429 NotJson)) exampleRequest)) = 429"
    by simp
  from T c have t3: "status (fst (handler (exampleEnv (FetchResolved 402 NotJson)) exampleRequest)) = 402"
    by simp
  from T c o have t4: "status (fst (handler (exampleEnv (FetchResolved 503 NotJson)) exampleRequest)) = 500"
    by simp
  from T c o e have t5: "status (fst (handler (exampleEnv (FetchResolved 200 (Json (JObj [])))) exampleRequest)) = 500"
    by simp
  from T c o i k' have t6: "status (fst (handler (exampleEnv (FetchResolved 200 ?img)) exampleRequest)) = 200
      \<and> success (body (fst (handler (exampleEnv (FetchResolved 200 ?img)) exampleRequest))) = Some True"
    by blast
  from T c o i s have t7: "imageBase64 (body (fst (handler (exampleEnv (FetchResolved 200 ?img)) exampleRequest))) \<noteq> None"
    by blast
  from m k n t2 t3 t4 t5 t6 t7 o e i s show ?thesis by simp
qed

text \<open>
  The claim C4 as stated fails: with the credential present and a successful external
  call whose image URL is \<open>data:AAAA\<close>, the answer is 200 with \<open>success: true\<close> and
  without \<open>imageBase64\<close>, a case that the classification of the claim does not have.
  Moreover a preflight request is answered 200 also when the credential is missing, and
  the status 429 with a body that cannot be read is answered 500.
\<close>

theorem handler_classification_counterexample:
  "LOVABLE_API_KEY (exampleEnv (FetchResolved 200 (Json (bodyWithUrl (JStr (ascii ''data:AAAA''))))))
      = Some (ascii ''secret'')
   \<and> externalCall (exampleEnv (FetchResolved 200 (Json (bodyWithUrl (JStr (ascii ''data:AAAA''))))))
        exampleRequest
      = Some (FetchResolved 200 (Json (bodyWithUrl (JStr (ascii ''data:AAAA'')))))
   \<and> ok 200
   \<and> imageUrlOf (bodyWithUrl (JStr (ascii ''data:AAAA''))) = JStr (ascii ''data:AAAA'')
   \<and> fst (handler (exampleEnv (FetchResolved 200 (Json (bodyWithUrl (JStr (ascii ''data:AAAA''))))))
            exampleRequest)
      = \<lparr>status = 200, body = ImageBody None\<rparr>
   \<and> success (ImageBody None) = Some True
   \<and> imageBase64 (ImageBody None) = None
   \<and> missing (LOVABLE_API_KEY ((exampleEnv FetchRejected)\<lparr>LOVABLE_API_KEY := None\<rparr>))
   \<and> handler ((exampleEnv FetchRejected)\<lparr>LOVABLE_API_KEY := None\<rparr>)
        (exampleRequest\<lparr>reqMethod := ascii ''OPTIONS''\<rparr>)
      = (\<lparr>status = 200, body = NullBody\<rparr>, [])
   \<and> externalCall (exampleEnv (FetchResolved 429 Unreadable)) exampleRequest
      = Some (FetchResolved 429 Unreadable)
   \<and> fst (handler (exampleEnv (FetchResolved 429 Unreadable)) exampleRequest)
      = \<lparr>status = 500, body = ErrorBody (MessageOf RuntimeError)\<rparr>"
proof -
  have f: "imageField (Json (bodyWithUrl (JStr (ascii ''data:AAAA'')))) = Some (ascii ''data:AAAA'')"
    by (simp add: ascii_def imageField_bodyWithUrl del: imageField.simps)
  have k: "ok 200" by (simp add: ok_def)
  have a: "fst (handler (exampleEnv (FetchResolved 200 (Json (bodyWithUrl (JStr (ascii ''data:AAAA''))))))
            exampleRequest)
        = \<lparr>status = 200, body = ImageBody (imageBase64Of (ascii ''data:AAAA''))\<rparr>"
    by (rule handler_image[OF exampleEnv_call k f])
  have b: "imageBase64Of (ascii ''data:AAAA'') = None"
    by (simp add: imageBase64Of_def ascii_def comma_def)
  have p: "handler ((exampleEnv FetchRejected)\<lparr>LOVABLE_API_KEY := None\<rparr>)
        (exampleRequest\<lparr>reqMethod := ascii ''OPTIONS''\<rparr>)
      = (\<lparr>status = 200, body = NullBody\<rparr>, [])"
    by (simp add: handler_def)
  have "\<not> ok 429" by (simp add: ok_def)
  from handler_rejected_status[OF exampleEnv_call this]
  have u: "fst (handler (exampleEnv (FetchResolved 429 Unreadable)) exampleRequest)
      = \<lparr>status = 500, body = ErrorBody (MessageOf RuntimeError)\<rparr>"
    by simp
  from a b k p u show ?thesis
    by (simp add: exampleEnv_call imageUrlOf_bodyWithUrl) (simp add: exampleEnv_def)
qed

section \<open>The hook: load, save, publish\<close>

lemma saveConfig_guard:
  assumes "missing restaurantId \<or> config st = None"
  shows "saveConfig store restaurantId st updates = (False, st, [])"
  using assms
  by (cases restaurantId; cases "config st") (auto simp: saveConfig_def)

lemma saveConfig_update:
  assumes "rid \<noteq> []" and "config st = Some cfg" and "truthy (field cfg (ascii ''id''))"
  shows "saveConfig store (Some rid) st updates =
     (case store (Update updates (field cfg (ascii ''id''))) of
        Failed \<Rightarrow> (False, st\<lparr>saving := False\<rparr>, [Update updates (field cfg (ascii ''id''))])
      | Data d \<Rightarrow> (True, st\<lparr>config := Some (cfg ++ updates), saving := False\<rparr>,
                  [Update updates (field cfg (ascii ''id''))]))"
  using assms by (simp add: saveConfig_def Let_def)

lemma saveConfig_insert:
  assumes "rid \<noteq> []" and "config st = Some cfg" and "\<not> truthy (field cfg (ascii ''id''))"
  shows "saveConfig store (Some rid) st updates =
     (case store (InsertSelectSingle ((cfg ++ updates)(ascii ''restaurant_id'' \<mapsto> JStr rid))) of
        Failed \<Rightarrow> (False, st\<lparr>saving := False\<rparr>,
                   [InsertSelectSingle ((cfg ++ updates)(ascii ''restaurant_id'' \<mapsto> JStr rid))])
      | Data None \<Rightarrow> (False, st\<lparr>saving := False\<rparr>,
                   [InsertSelectSingle ((cfg ++ updates)(ascii ''restaurant_id'' \<mapsto> JStr rid))])
      | Data (Some d) \<Rightarrow>
          (True,
           st\<lparr>config := Some ((cfg ++ updates)(ascii ''id'' \<mapsto> field d (ascii ''id''))),
              saving := False\<rparr>,
           [InsertSelectSingle ((cfg ++ updates)(ascii ''restaurant_id'' \<mapsto> JStr rid))]))"
  using assms by (simp add: saveConfig_def Let_def)

lemma saveConfig_cases:
  obtains (guard) "missing restaurantId \<or> config st = None"
  | (update) rid cfg where "restaurantId = Some rid" "rid \<noteq> []" "config st = Some cfg"
      "truthy (field cfg (ascii ''id''))"
  | (insert) rid cfg where "restaurantId = Some rid" "rid \<noteq> []" "config st = Some cfg"
      "\<not> truthy (field cfg (ascii ''id''))"
  by (cases restaurantId; cases "config st") auto

lemma loadWebsiteConfig_no_row:
  assumes "rid \<noteq> []" and "store (SelectMaybeSingle rid) = Data None"
  shows "loadWebsiteConfig store (Some rid) st
     = (st\<lparr>config := Some ((map_of defaultConfig)(ascii ''restaurant_id'' \<mapsto> JStr rid)),
           loading := False\<rparr>,
        [SelectMaybeSingle rid])"
  using assms by (simp add: loadWebsiteConfig_def)

lemma loadWebsiteConfig_row:
  assumes "rid \<noteq> []" and "store (SelectMaybeSingle rid) = Data (Some row)"
  shows "loadWebsiteConfig store (Some rid) st
     = (st\<lparr>config := Some row, loading := False\<rparr>, [SelectMaybeSingle rid])"
  using assms by (simp add: loadWebsiteConfig_def)

lemma defaultConfig_no_id: "map_of defaultConfig (ascii ''id'') = None"
  by (simp add: defaultConfig_def ascii_def)

lemma restaurant_id_is_not_id: "ascii ''restaurant_id'' \<noteq> ascii ''id''"
  by (simp add: ascii_def)

text \<open>
  C5 (as amended).  With no known row id, \<open>saveConfig\<close> issues one insert of the merged
  config under the restaurant id, and when the store returns the inserted row the
  in-memory config carries the id of that row, which is not null when the store's is not.
  With a known id it issues one update against that id, and the in-memory config keeps
  that id unless the partial update carries a different one.  First save is an upsert
  keyed by the restaurant id: after a load for the restaurant id that found no row,
  \<open>saveConfig\<close> inserts a row with that restaurant id, and after a load that found the
  row it updates that row.  No call of \<open>saveConfig\<close> issues a delete.
\<close>

theorem saveConfig_insert_or_update:
  "(ridI \<noteq> [] \<and> config stI = Some cfgI \<and> \<not> truthy (field cfgI (ascii ''id'')) \<longrightarrow>
      snd (snd (saveConfig storeI (Some ridI) stI updatesI))
        = [InsertSelectSingle ((cfgI ++ updatesI)(ascii ''restaurant_id'' \<mapsto> JStr ridI))]
      \<and> field ((cfgI ++ updatesI)(ascii ''restaurant_id'' \<mapsto> JStr ridI)) (ascii ''restaurant_id'')
          = JStr ridI
      \<and> (storeI (InsertSelectSingle ((cfgI ++ updatesI)(ascii ''restaurant_id'' \<mapsto> JStr ridI)))
            = Data (Some dI) \<longrightarrow>
          fst (saveConfig storeI (Some ridI) stI updatesI)
          \<and> configId (fst (snd (saveConfig storeI (Some ridI) stI updatesI))) = field dI (ascii ''id'')
          \<and> (\<not> nullish (field dI (ascii ''id'')) \<longrightarrow>
                \<not> nullish (configId (fst (snd (saveConfig storeI (Some ridI) stI updatesI)))))))
   \<and> (ridU \<noteq> [] \<and> config stU = Some cfgU \<and> truthy (field cfgU (ascii ''id'')) \<longrightarrow>
        snd (snd (saveConfig storeU (Some ridU) stU updatesU))
          = [Update updatesU (field cfgU (ascii ''id''))]
        \<and> (storeU (Update updatesU (field cfgU (ascii ''id''))) \<noteq> Failed \<longrightarrow>
              fst (saveConfig storeU (Some ridU) stU updatesU))
        \<and> (updatesU (ascii ''id'') = None \<or> updatesU (ascii ''id'') = Some (field cfgU (ascii ''id'')) \<longrightarrow>
              configId (fst (snd (saveConfig storeU (Some ridU) stU updatesU))) = configId stU))
   \<and> (ridN \<noteq> [] \<and> loadStoreN (SelectMaybeSingle ridN) = Data None \<longrightarrow>
        snd (snd (saveConfig saveStoreN (Some ridN)
                    (fst (loadWebsiteConfig loadStoreN (Some ridN) stN)) updatesN))
          = [InsertSelectSingle
               (((map_of defaultConfig)(ascii ''restaurant_id'' \<mapsto> JStr ridN) ++ updatesN)
                  (ascii ''restaurant_id'' \<mapsto> JStr ridN))])
   \<and> (ridK \<noteq> [] \<and> loadStoreK (SelectMaybeSingle ridK) = Data (Some rowK)
        \<and> truthy (field rowK (ascii ''id'')) \<longrightarrow>
        snd (snd (saveConfig saveStoreK (Some ridK)
                    (fst (loadWebsiteConfig loadStoreK (Some ridK) stK)) updatesK))
          = [Update updatesK (field rowK (ascii ''id''))])
   \<and> (\<forall>op \<in> set (snd (snd (saveConfig storeD restaurantIdD stD updatesD))). \<not> isDelete op)"
proof (intro conjI impI)
  assume h: "ridI \<noteq> [] \<and> config stI = Some cfgI \<and> \<not> truthy (field cfgI (ascii ''id''))"
  let ?row = "(cfgI ++ updatesI)(ascii ''restaurant_id'' \<mapsto> JStr ridI)"
  from h have s: "saveConfig storeI (Some ridI) stI updatesI =
     (case storeI (InsertSelectSingle ?row) of
        Failed \<Rightarrow> (False, stI\<lparr>saving := False\<rparr>, [InsertSelectSingle ?row])
      | Data None \<Rightarrow> (False, stI\<lparr>saving := False\<rparr>, [InsertSelectSingle ?row])
      | Data (Some d) \<Rightarrow>
          (True,
           stI\<lparr>config := Some ((cfgI ++ updatesI)(ascii ''id'' \<mapsto> field d (ascii ''id''))),
               saving := False\<rparr>,
           [InsertSelectSingle ?row]))"
    by (simp add: saveConfig_insert)
  show "snd (snd (saveConfig storeI (Some ridI) stI updatesI)) = [InsertSelectSingle ?row]"
    unfolding s by (simp split: store_reply.splits option.splits)
  show "field ?row (ascii ''restaurant_id'') = JStr ridI"
    by (simp add: field_def)
  assume r: "storeI (InsertSelectSingle ?row) = Data (Some dI)"
  with s show "fst (saveConfig storeI (Some ridI) stI updatesI)"
    and e: "configId (fst (snd (saveConfig storeI (Some ridI) stI updatesI))) = field dI (ascii ''id'')"
    by (simp_all add: configId_def field_def)
  assume "\<not> nullish (field dI (ascii ''id''))"
  with e show "\<not> nullish (configId (fst (snd (saveConfig storeI (Some ridI) stI updatesI))))"
    by simp
next
  assume h: "ridU \<noteq> [] \<and> config stU = Some cfgU \<and> truthy (field cfgU (ascii ''id''))"
  let ?op = "Update updatesU (field cfgU (ascii ''id''))"
  from h have s: "saveConfig storeU (Some ridU) stU updatesU =
     (case storeU ?op of
        Failed \<Rightarrow> (False, stU\<lparr>saving := False\<rparr>, [?op])
      | Data d \<Rightarrow> (True, stU\<lparr>config := Some (cfgU ++ updatesU), saving := False\<rparr>, [?op]))"
    by (simp add: saveConfig_update)
  show "snd (snd (saveConfig storeU (Some ridU) stU updatesU)) = [?op]"
    unfolding s by (simp split: store_reply.splits)
  {
    assume "storeU ?op \<noteq> Failed"
    then show "fst (saveConfig storeU (Some ridU) stU updatesU)"
      unfolding s by (simp split: store_reply.splits)
  }
  assume u: "updatesU (ascii ''id'') = None \<or> updatesU (ascii ''id'') = Some (field cfgU (ascii ''id''))"
  from h obtain v where v: "cfgU (ascii ''id'') = Some v"
    by (cases "cfgU (ascii ''id'')") (auto simp: field_def)
  with u have "field (cfgU ++ updatesU) (ascii ''id'') = field cfgU (ascii ''id'')"
    by (auto simp: field_def map_add_def)
  with h show "configId (fst (snd (saveConfig storeU (Some ridU) stU updatesU))) = configId stU"
    unfolding s by (simp add: configId_def split: store_reply.splits)
next
  assume h: "ridN \<noteq> [] \<and> loadStoreN (SelectMaybeSingle ridN) = Data None"
  let ?cfg = "(map_of defaultConfig)(ascii ''restaurant_id'' \<mapsto> JStr ridN)"
  let ?row = "(?cfg ++ updatesN)(ascii ''restaurant_id'' \<mapsto> JStr ridN)"
  let ?st = "fst (loadWebsiteConfig loadStoreN (Some ridN) stN)"
  from h have c: "config ?st = Some ?cfg"
    by (simp add: loadWebsiteConfig_no_row)
  have n: "\<not> truthy (field ?cfg (ascii ''id''))"
    using restaurant_id_is_not_id by (simp add: field_def defaultConfig_no_id)
  from h have r: "ridN \<noteq> []" by simp
  show "snd (snd (saveConfig saveStoreN (Some ridN) ?st updatesN)) = [InsertSelectSingle ?row]"
    unfolding saveConfig_insert[OF r c n] by (simp split: store_reply.splits option.splits)
next
  assume h: "ridK \<noteq> [] \<and> loadStoreK (SelectMaybeSingle ridK) = Data (Some rowK)
        \<and> truthy (field rowK (ascii ''id''))"
  let ?st = "fst (loadWebsiteConfig loadStoreK (Some ridK) stK)"
  from h have c: "config ?st = Some rowK"
    by (simp add: loadWebsiteConfig_row)
  from h have r: "ridK \<noteq> []" and t: "truthy (field rowK (ascii ''id''))" by simp_all
  show "snd (snd (saveConfig saveStoreK (Some ridK) ?st updatesK))
          = [Update updatesK (field rowK (ascii ''id''))]"
    unfolding saveConfig_update[OF r c t] by (simp split: store_reply.splits)
next
  show "\<forall>op \<in> set (snd (snd (saveConfig storeD restaurantIdD stD updatesD))). \<not> isDelete op"
  proof (cases restaurantIdD stD rule: saveConfig_cases)
    case guard
    then show ?thesis by (simp add: saveConfig_guard)
  next
    case (update rid cfg)
    then show ?thesis
      by (simp add: saveConfig_update split: store_reply.splits)
  next
    case (insert rid cfg)
    then show ?thesis
      by (simp add: saveConfig_insert split: store_reply.splits option.splits)
  qed
qed

theorem saveConfig_insert_or_update_witness:
  "ascii ''r1'' \<noteq> []
   \<and> \<not> truthy (field [ascii ''restaurant_id'' \<mapsto> JStr (ascii ''r1'')] (ascii ''id''))
   \<and> truthy (field [ascii ''id'' \<mapsto> JStr (ascii ''w1'')] (ascii ''id''))
   \<and> \<not> nullish (field [ascii ''id'' \<mapsto> JStr (ascii ''w1'')] (ascii ''id''))
   \<and> [ascii ''id'' \<mapsto> JStr (ascii ''w1''), ascii ''is_published'' \<mapsto> JBool True] (ascii ''id'')
        = Some (field [ascii ''id'' \<mapsto> JStr (ascii ''w1'')] (ascii ''id''))
   \<and> snd (snd (saveConfig (constStore (Data (Some [ascii ''id'' \<mapsto> JStr (ascii ''w1'')])))
        (Some (ascii ''r1''))
        \<lparr>config = Some [ascii ''restaurant_id'' \<mapsto> JStr (ascii ''r1'')], loading = False, saving = False\<rparr>
        Map.empty))
      = [InsertSelectSingle
           (([ascii ''restaurant_id'' \<mapsto> JStr (ascii ''r1'')] ++ Map.empty)
              (ascii ''restaurant_id'' \<mapsto> JStr (ascii ''r1'')))]
   \<and> fst (saveConfig (constStore (Data (Some [ascii ''id'' \<mapsto> JStr (ascii ''w1'')])))
        (Some (ascii ''r1''))
        \<lparr>config = Some [ascii ''restaurant_id'' \<mapsto> JStr (ascii ''r1'')], loading = False, saving = False\<rparr>
        Map.empty)
   \<and> configId (fst (snd (saveConfig (constStore (Data (Some [ascii ''id'' \<mapsto> JStr (ascii ''w1'')])))
        (Some (ascii ''r1''))
        \<lparr>config = Some [ascii ''restaurant_id'' \<mapsto> JStr (ascii ''r1'')], loading = False, saving = False\<rparr>
        Map.empty)))
      = JStr (ascii ''w1'')
   \<and> \<not> nullish (configId (fst (snd (saveConfig (constStore (Data (Some [ascii ''id'' \<mapsto> JStr (ascii ''w1'')])))
        (Some (ascii ''r1''))
        \<lparr>config = Some [ascii ''restaurant_id'' \<mapsto> JStr (ascii ''r1'')], loading = False, saving = False\<rparr>
        Map.empty))))
   \<and> snd (snd (saveConfig (constStore (Data None)) (Some (ascii ''r1''))
        \<lparr>config = Some [ascii ''id'' \<mapsto> JStr (ascii ''w1'')], loading = False, saving = False\<rparr>
        [ascii ''id'' \<mapsto> JStr (ascii ''w1''), ascii ''is_published'' \<mapsto> JBool True]))
      = [Update [ascii ''id'' \<mapsto> JStr (ascii ''w1''), ascii ''is_published'' \<mapsto> JBool True]
           (JStr (ascii ''w1''))]
   \<and> fst (saveConfig (constStore (Data None)) (Some (ascii ''r1''))
        \<lparr>config = Some [ascii ''id'' \<mapsto> JStr (ascii ''w1'')], loading = False, saving = False\<rparr>
        [ascii ''id'' \<mapsto> JStr (ascii ''w1''), ascii ''is_published'' \<mapsto> JBool True])
   \<and> configId (fst (snd (saveConfig (constStore (Data None)) (Some (ascii ''r1''))
        \<lparr>config = Some [ascii ''id'' \<mapsto> JStr (ascii ''w1'')], loading = False, saving = False\<rparr>
        [ascii ''id'' \<mapsto> JStr (ascii ''w1''), ascii ''is_published'' \<mapsto> JBool True])))
      = JStr (ascii ''w1'')
   \<and> snd (snd (saveConfig (constStore Failed) (Some (ascii ''r1''))
        (fst (loadWebsiteConfig (constStore (Data None)) (Some (ascii ''r1'')) initialHook))
        [ascii ''is_published'' \<mapsto> JBool True]))
      = [InsertSelectSingle
           (((map_of defaultConfig)(ascii ''restaurant_id'' \<mapsto> JStr (ascii ''r1''))
               ++ [ascii ''is_published'' \<mapsto> JBool True])
              (ascii ''restaurant_id'' \<mapsto> JStr (ascii ''r1'')))]
   \<and> snd (snd (saveConfig (constStore (Data None)) (Some (ascii ''r1''))
        (fst (loadWebsiteConfig (constStore (Data (Some [ascii ''id'' \<mapsto> JStr (ascii ''w1'')])))
               (Some (ascii ''r1'')) initialHook))
        [ascii ''is_published'' \<mapsto> JBool True]))
      = [Update [ascii ''is_published'' \<mapsto> JBool True] (JStr (ascii ''w1''))]"
proof -
  let ?new = "\<lparr>config = Some [ascii ''restaurant_id'' \<mapsto> JStr (ascii ''r1'')],
               loading = False, saving = False\<rparr>"
  let ?old = "\<lparr>config = Some [ascii ''id'' \<mapsto> JStr (ascii ''w1'')],
               loading = False, saving = False\<rparr>"
  let ?row = "[ascii ''id'' \<mapsto> JStr (ascii ''w1'')]"
  let ?form = "[ascii ''id'' \<mapsto> JStr (ascii ''w1''), ascii ''is_published'' \<mapsto> JBool True]"
  let ?pub = "[ascii ''is_published'' \<mapsto> JBool True]"
  have h1: "ascii ''r1'' \<noteq> []" by (simp add: ascii_def)
  have h2: "\<not> truthy (field [ascii ''restaurant_id'' \<mapsto> JStr (ascii ''r1'')] (ascii ''id''))"
    by (simp add: field_def ascii_def)
  have f: "field ?row (ascii ''id'') = JStr (ascii ''w1'')"
    by (simp add: field_def)
  have h3: "truthy (field ?row (ascii ''id''))" "\<not> nullish (field ?row (ascii ''id''))"
    by (simp_all add: field_def nullish_def ascii_def)
  have h5: "?form (ascii ''id'') = Some (field ?row (ascii ''id''))"
    by (simp add: field_def ascii_def)
  have s: "\<And>op. constStore (Data (Some ?row)) op = Data (Some ?row)"
    "\<And>op. constStore (Data None) op = Data None"
    "\<And>op. constStore (Data None) op \<noteq> Failed"
    by (simp_all add: constStore_def)
  have c: "config ?new = Some [ascii ''restaurant_id'' \<mapsto> JStr (ascii ''r1'')]"
    "config ?old = Some ?row" "configId ?old = JStr (ascii ''w1'')"
    by (simp_all add: configId_def field_def)
  note T = saveConfig_insert_or_update[where ridI = "ascii ''r1''" and stI = ?new
      and cfgI = "[ascii ''restaurant_id'' \<mapsto> JStr (ascii ''r1'')]"
      and storeI = "constStore (Data (Some ?row))" and updatesI = Map.empty and dI = ?row
      and ridU = "ascii ''r1''" and stU = ?old and cfgU = ?row
      and storeU = "constStore (Data None)" and updatesU = ?form
      and ridN = "ascii ''r1''" and loadStoreN = "constStore (Data None)"
      and saveStoreN = "constStore Failed" and stN = initialHook and updatesN = ?pub
      and ridK = "ascii ''r1''" and loadStoreK = "constStore (Data (Some ?row))"
      and rowK = ?row and saveStoreK = "constStore (Data None)" and stK = initialHook
      and updatesK = ?pub
      and storeD = "constStore Failed" and restaurantIdD = None and stD = initialHook
      and updatesD = Map.empty]
  from T h1 h2 c(1) have a1: "snd (snd (saveConfig (constStore (Data (Some ?row)))
        (Some (ascii ''r1'')) ?new Map.empty))
      = [InsertSelectSingle
           (([ascii ''restaurant_id'' \<mapsto> JStr (ascii ''r1'')] ++ Map.empty)
              (ascii ''restaurant_id'' \<mapsto> JStr (ascii ''r1'')))]"
    by blast
  from T h1 h2 c(1) s(1) h3 have a2:
    "fst (saveConfig (constStore (Data (Some ?row))) (Some (ascii ''r1'')) ?new Map.empty)"
    "configId (fst (snd (saveConfig (constStore (Data (Some ?row))) (Some (ascii ''r1'')) ?new Map.empty)))
      = field ?row (ascii ''id'')"
    "\<not> nullish (configId (fst (snd (saveConfig (constStore (Data (Some ?row)))
        (Some (ascii ''r1'')) ?new Map.empty))))"
    by blast+
  from T h1 h3 c(2) have b1: "snd (snd (saveConfig (constStore (Data None)) (Some (ascii ''r1'')) ?old ?form))
      = [Update ?form (field ?row (ascii ''id''))]"
    by blast
  from T h1 h3 c(2) s(3) have b2:
    "fst (saveConfig (constStore (Data None)) (Some (ascii ''r1'')) ?old ?form)"
    by blast
  from T h1 h3 c(2) h5 have b3:
    "configId (fst (snd (saveConfig (constStore (Data None)) (Some (ascii ''r1'')) ?old ?form)))
      = configId ?old"
    by blast
  from T h1 s(2) have n: "snd (snd (saveConfig (constStore Failed) (Some (ascii ''r1''))
        (fst (loadWebsiteConfig (constStore (Data None)) (Some (ascii ''r1'')) initialHook)) ?pub))
      = [InsertSelectSingle
           (((map_of defaultConfig)(ascii ''restaurant_id'' \<mapsto> JStr (ascii ''r1'')) ++ ?pub)
              (ascii ''restaurant_id'' \<mapsto> JStr (ascii ''r1'')))]"
    by blast
  from T h1 s(1) h3 have k: "snd (snd (saveConfig (constStore (Data None)) (Some (ascii ''r1''))
        (fst (loadWebsiteConfig (constStore (Data (Some ?row))) (Some (ascii ''r1'')) initialHook)) ?pub))
      = [Update ?pub (field ?row (ascii ''id''))]"
    by blast
  from h1 h2 h3 h5 a1 a2 b1 b2 b3 n k show ?thesis
    unfolding f c(3) by blast
qed

text \<open>
  The claim C5 as stated fails: a partial update may carry another \<open>id\<close>, and then the
  in-memory config takes that id instead of keeping the one it had.  And after an insert
  that the store refuses, the in-memory config has no id.
\<close>

theorem saveConfig_insert_or_update_counterexample:
  "configId \<lparr>config = Some [ascii ''id'' \<mapsto> JStr (ascii ''w1'')], loading = False, saving = False\<rparr>
      = JStr (ascii ''w1'')
   \<and> saveConfig (constStore (Data None)) (Some (ascii ''r1''))
        \<lparr>config = Some [ascii ''id'' \<mapsto> JStr (ascii ''w1'')], loading = False, saving = False\<rparr>
        [ascii ''id'' \<mapsto> JStr (ascii ''w2'')]
      = (True,
         \<lparr>config = Some [ascii ''id'' \<mapsto> JStr (ascii ''w2'')], loading = False, saving = False\<rparr>,
         [Update [ascii ''id'' \<mapsto> JStr (ascii ''w2'')] (JStr (ascii ''w1''))])
   \<and> configId \<lparr>config = Some [ascii ''id'' \<mapsto> JStr (ascii ''w2'')], loading = False, saving = False\<rparr>
      = JStr (ascii ''w2'')
   \<and> JStr (ascii ''w2'') \<noteq> JStr (ascii ''w1'')
   \<and> fst (snd (saveConfig (constStore Failed) (Some (ascii ''r1''))
        \<lparr>config = Some Map.empty, loading = False, saving = True\<rparr> Map.empty))
      = \<lparr>config = Some Map.empty, loading = False, saving = False\<rparr>
   \<and> configId \<lparr>config = Some Map.empty, loading = False, saving = False\<rparr> = JUndefined"
  by (simp add: saveConfig_def configId_def field_def constStore_def ascii_def)

lemma loadWebsiteConfig_defaults:
  assumes "rid \<noteq> []" and "store (SelectMaybeSingle rid) = Data None"
  shows "configField (fst (loadWebsiteConfig store (Some rid) st)) ''is_published'' = JBool False"
    and "configField (fst (loadWebsiteConfig store (Some rid) st)) ''subdomain'' = JNull"
    and "configField (fst (loadWebsiteConfig store (Some rid) st)) ''custom_domain'' = JNull"
    and "configField (fst (loadWebsiteConfig store (Some rid) st)) ''theme_color''
             = JStr (ascii ''#FF6B35'')"
    and "configField (fst (loadWebsiteConfig store (Some rid) st)) ''secondary_color''
             = JStr (ascii ''#1A1A2E'')"
    and "configField (fst (loadWebsiteConfig store (Some rid) st)) ''font_family''
             = JStr (ascii ''Inter'')"
    and "configField (fst (loadWebsiteConfig store (Some rid) st)) ''logo_position''
             = JStr (ascii ''left'')"
    and "configField (fst (loadWebsiteConfig store (Some rid) st)) ''hero_title'' = JNull"
    and "configField (fst (loadWebsiteConfig store (Some rid) st)) ''hero_subtitle'' = JNull"
    and "configField (fst (loadWebsiteConfig store (Some rid) st)) ''hero_image_url'' = JNull"
    and "configField (fst (loadWebsiteConfig store (Some rid) st)) ''hero_cta_text''
             = JStr (ascii ''R'' @ [0xE9] @ ascii ''server une table'')"
    and "configField (fst (loadWebsiteConfig store (Some rid) st)) ''hero_cta_enabled''
             = JBool True"
    and "configField (fst (loadWebsiteConfig store (Some rid) st)) ''about_title''
             = JStr ([0xC0] @ ascii '' propos'')"
    and "configField (fst (loadWebsiteConfig store (Some rid) st)) ''about_content'' = JNull"
    and "configField (fst (loadWebsiteConfig store (Some rid) st)) ''about_image_url'' = JNull"
    and "configField (fst (loadWebsiteConfig store (Some rid) st)) ''about_enabled'' = JBool True"
    and "configField (fst (loadWebsiteConfig store (Some rid) st)) ''menu_title''
             = JStr (ascii ''Notre Menu'')"
    and "configField (fst (loadWebsiteConfig store (Some rid) st)) ''menu_enabled'' = JBool True"
    and "configField (fst (loadWebsiteConfig store (Some rid) st)) ''menu_display_style''
             = JStr (ascii ''grid'')"
    and "configField (fst (loadWebsiteConfig store (Some rid) st)) ''gallery_title''
             = JStr (ascii ''Galerie'')"
    and "configField (fst (loadWebsiteConfig store (Some rid) st)) ''gallery_images'' = JArr []"
    and "configField (fst (loadWebsiteConfig store (Some rid) st)) ''gallery_enabled''
             = JBool True"
    and "configField (fst (loadWebsiteConfig store (Some rid) st)) ''contact_title''
             = JStr (ascii ''Contact'')"
    and "configField (fst (loadWebsiteConfig store (Some rid) st)) ''contact_enabled''
             = JBool True"
    and "configField (fst (loadWebsiteConfig store (Some rid) st)) ''show_map'' = JBool True"
    and "configField (fst (loadWebsiteConfig store (Some rid) st)) ''show_opening_hours''
             = JBool True"
    and "configField (fst (loadWebsiteConfig store (Some rid) st)) ''reservations_title''
             = JStr (ascii ''R'' @ [0xE9] @ ascii ''servations'')"
    and "configField (fst (loadWebsiteConfig store (Some rid) st)) ''reservations_enabled''
             = JBool True"
    and "configField (fst (loadWebsiteConfig store (Some rid) st)) ''reservations_description''
             = JNull"
    and "configField (fst (loadWebsiteConfig store (Some rid) st)) ''show_social_links''
             = JBool True"
    and "configField (fst (loadWebsiteConfig store (Some rid) st)) ''meta_title'' = JNull"
    and "configField (fst (loadWebsiteConfig store (Some rid) st)) ''meta_description'' = JNull"
    and "configField (fst (loadWebsiteConfig store (Some rid) st)) ''meta_keywords'' = JNull"
    and "configField (fst (loadWebsiteConfig store (Some rid) st)) ''google_analytics_id'' = JNull"
  using assms
  by (simp_all add: loadWebsiteConfig_no_row configField_def field_def defaultConfig_def ascii_def)

lemma loadWebsiteConfig_default_keys:
  assumes "rid \<noteq> []" and "store (SelectMaybeSingle rid) = Data None"
  shows "\<exists>cfg. config (fst (loadWebsiteConfig store (Some rid) st)) = Some cfg
           \<and> dom cfg = set (map ascii
               [''restaurant_id'', ''is_published'', ''subdomain'',
            ''custom_domain'', ''theme_color'', ''secondary_color'',
            ''font_family'', ''logo_position'', ''hero_title'',
            ''hero_subtitle'', ''hero_image_url'', ''hero_cta_text'',
            ''hero_cta_enabled'', ''about_title'', ''about_content'',
            ''about_image_url'', ''about_enabled'', ''menu_title'',
            ''menu_enabled'', ''menu_display_style'', ''gallery_title'',
            ''gallery_images'', ''gallery_enabled'', ''contact_title'',
            ''contact_enabled'', ''show_map'', ''show_opening_hours'',
            ''reservations_title'', ''reservations_enabled'',
            ''reservations_description'', ''show_social_links'',
            ''meta_title'', ''meta_description'', ''meta_keywords'',
            ''google_analytics_id''])"
proof -
  have "dom ((map_of defaultConfig)(ascii ''restaurant_id'' \<mapsto> JStr rid))
      = set (map ascii
               [''restaurant_id'', ''is_published'', ''subdomain'',
            ''custom_domain'', ''theme_color'', ''secondary_color'',
            ''font_family'', ''logo_position'', ''hero_title'',
            ''hero_subtitle'', ''hero_image_url'', ''hero_cta_text'',
            ''hero_cta_enabled'', ''about_title'', ''about_content'',
            ''about_image_url'', ''about_enabled'', ''menu_title'',
            ''menu_enabled'', ''menu_display_style'', ''gallery_title'',
            ''gallery_images'', ''gallery_enabled'', ''contact_title'',
            ''contact_enabled'', ''show_map'', ''show_opening_hours'',
            ''reservations_title'', ''reservations_enabled'',
            ''reservations_description'', ''show_social_links'',
            ''meta_title'', ''meta_description'', ''meta_keywords'',
            ''google_analytics_id''])"
    by (simp add: dom_map_of_conv_image_fst defaultConfig_def)
  with assms show ?thesis
    by (simp add: loadWebsiteConfig_no_row)
qed

text \<open>
  C6.  \<open>loadWebsiteConfig\<close> issues at most one store call, a select of at most one row
  for the restaurant id, and never a write.  When the store has no row, the in-memory
  config becomes the default configuration with the given \<open>restaurant_id\<close>: it has no
  \<open>id\<close>, \<open>is_published\<close> is false, every other property has the default listed below,
  and it has no further property.
\<close>

theorem loadWebsiteConfig_default:
  "(rid \<noteq> [] \<and> store (SelectMaybeSingle rid) = Data None \<longrightarrow>
      loadWebsiteConfig store (Some rid) st
        = (st\<lparr>config := Some ((map_of defaultConfig)(ascii ''restaurant_id'' \<mapsto> JStr rid)),
              loading := False\<rparr>,
           [SelectMaybeSingle rid])
      \<and> configField (fst (loadWebsiteConfig store (Some rid) st)) ''id'' = JUndefined
      \<and> configField (fst (loadWebsiteConfig store (Some rid) st)) ''restaurant_id'' = JStr rid
      \<and> configField (fst (loadWebsiteConfig store (Some rid) st)) ''is_published'' = JBool False
      \<and> configField (fst (loadWebsiteConfig store (Some rid) st)) ''subdomain'' = JNull
      \<and> configField (fst (loadWebsiteConfig store (Some rid) st)) ''custom_domain'' = JNull
      \<and> configField (fst (loadWebsiteConfig store (Some rid) st)) ''theme_color''
             = JStr (ascii ''#FF6B35'')
      \<and> configField (fst (loadWebsiteConfig store (Some rid) st)) ''secondary_color''
             = JStr (ascii ''#1A1A2E'')
      \<and> configField (fst (loadWebsiteConfig store (Some rid) st)) ''font_family''
             = JStr (ascii ''Inter'')
      \<and> configField (fst (loadWebsiteConfig store (Some rid) st)) ''logo_position''
             = JStr (ascii ''left'')
      \<and> configField (fst (loadWebsiteConfig store (Some rid) st)) ''hero_title'' = JNull
      \<and> configField (fst (loadWebsiteConfig store (Some rid) st)) ''hero_subtitle'' = JNull
      \<and> configField (fst (loadWebsiteConfig store (Some rid) st)) ''hero_image_url'' = JNull
      \<and> configField (fst (loadWebsiteConfig store (Some rid) st)) ''hero_cta_text''
             = JStr (ascii ''R'' @ [0xE9] @ ascii ''server une table'')
      \<and> configField (fst (loadWebsiteConfig store (Some rid) st)) ''hero_cta_enabled''
             = JBool True
      \<and> configField (fst (loadWebsiteConfig store (Some rid) st)) ''about_title''
             = JStr ([0xC0] @ ascii '' propos'')
      \<and> configField (fst (loadWebsiteConfig store (Some rid) st)) ''about_content'' = JNull
      \<and> configField (fst (loadWebsiteConfig store (Some rid) st)) ''about_image_url'' = JNull
      \<and> configField (fst (loadWebsiteConfig store (Some rid) st)) ''about_enabled'' = JBool True
      \<and> configField (fst (loadWebsiteConfig store (Some rid) st)) ''menu_title''
             = JStr (ascii ''Notre Menu'')
      \<and> configField (fst (loadWebsiteConfig store (Some rid) st)) ''menu_enabled'' = JBool True
      \<and> configField (fst (loadWebsiteConfig store (Some rid) st)) ''menu_display_style''
             = JStr (ascii ''grid'')
      \<and> configField (fst (loadWebsiteConfig store (Some rid) st)) ''gallery_title''
             = JStr (ascii ''Galerie'')
      \<and> configField (fst (loadWebsiteConfig store (Some rid) st)) ''gallery_images'' = JArr []
      \<and> configField (fst (loadWebsiteConfig store (Some rid) st)) ''gallery_enabled''
             = JBool True
      \<and> configField (fst (loadWebsiteConfig store (Some rid) st)) ''contact_title''
             = JStr (ascii ''Contact'')
      \<and> configField (fst (loadWebsiteConfig store (Some rid) st)) ''contact_enabled''
             = JBool True
      \<and> configField (fst (loadWebsiteConfig store (Some rid) st)) ''show_map'' = JBool True
      \<and> configField (fst (loadWebsiteConfig store (Some rid) st)) ''show_opening_hours''
             = JBool True
      \<and> configField (fst (loadWebsiteConfig store (Some rid) st)) ''reservations_title''
             = JStr (ascii ''R'' @ [0xE9] @ ascii ''servations'')
      \<and> configField (fst (loadWebsiteConfig store (Some rid) st)) ''reservations_enabled''
             = JBool True
      \<and> configField (fst (loadWebsiteConfig store (Some rid) st)) ''reservations_description''
             = JNull
      \<and> configField (fst (loadWebsiteConfig store (Some rid) st)) ''show_social_links''
             = JBool True
      \<and> configField (fst (loadWebsiteConfig store (Some rid) st)) ''meta_title'' = JNull
      \<and> configField (fst (loadWebsiteConfig store (Some rid) st)) ''meta_description'' = JNull
      \<and> configField (fst (loadWebsiteConfig store (Some rid) st)) ''meta_keywords'' = JNull
      \<and> configField (fst (loadWebsiteConfig store (Some rid) st)) ''google_analytics_id'' = JNull
      \<and> (\<exists>cfg. config (fst (loadWebsiteConfig store (Some rid) st)) = Some cfg
            \<and> dom cfg = set (map ascii
               [''restaurant_id'', ''is_published'', ''subdomain'',
            ''custom_domain'', ''theme_color'', ''secondary_color'',
            ''font_family'', ''logo_position'', ''hero_title'',
            ''hero_subtitle'', ''hero_image_url'', ''hero_cta_text'',
            ''hero_cta_enabled'', ''about_title'', ''about_content'',
            ''about_image_url'', ''about_enabled'', ''menu_title'',
            ''menu_enabled'', ''menu_display_style'', ''gallery_title'',
            ''gallery_images'', ''gallery_enabled'', ''contact_title'',
            ''contact_enabled'', ''show_map'', ''show_opening_hours'',
            ''reservations_title'', ''reservations_enabled'',
            ''reservations_description'', ''show_social_links'',
            ''meta_title'', ''meta_description'', ''meta_keywords'',
            ''google_analytics_id''])))
   \<and> (snd (loadWebsiteConfig store1 restaurantId1 st1) = []
        \<or> (\<exists>r. restaurantId1 = Some r \<and> snd (loadWebsiteConfig store1 restaurantId1 st1) = [SelectMaybeSingle r]))
   \<and> (\<forall>op \<in> set (snd (loadWebsiteConfig store1 restaurantId1 st1)). \<not> isWrite op)"
proof -
  have a: "snd (loadWebsiteConfig store1 restaurantId1 st1) = []
        \<or> (\<exists>r. restaurantId1 = Some r \<and> snd (loadWebsiteConfig store1 restaurantId1 st1) = [SelectMaybeSingle r])"
    by (cases restaurantId1)
       (auto simp: loadWebsiteConfig_def split: store_reply.splits option.splits)
  have b: "\<forall>op \<in> set (snd (loadWebsiteConfig store1 restaurantId1 st1)). \<not> isWrite op"
    by (cases restaurantId1)
       (auto simp: loadWebsiteConfig_def split: store_reply.splits option.splits)
  {
    assume h: "rid \<noteq> [] \<and> store (SelectMaybeSingle rid) = Data None"
    then have r: "rid \<noteq> []" and e: "store (SelectMaybeSingle rid) = Data None" by simp_all
    have i: "configField (fst (loadWebsiteConfig store (Some rid) st)) ''id'' = JUndefined"
      "configField (fst (loadWebsiteConfig store (Some rid) st)) ''restaurant_id'' = JStr rid"
      using r e
      by (simp_all add: loadWebsiteConfig_no_row configField_def field_def defaultConfig_def ascii_def)
    note loadWebsiteConfig_no_row[where rid = rid and store = store and st = st, OF r e] i
      loadWebsiteConfig_defaults[where rid = rid and store = store and st = st, OF r e]
      loadWebsiteConfig_default_keys[where rid = rid and store = store and st = st, OF r e]
  }
  with a b show ?thesis by blast
qed

theorem loadWebsiteConfig_default_witness:
  "ascii ''r1'' \<noteq> [] \<and> constStore (Data None) (SelectMaybeSingle (ascii ''r1'')) = Data None
   \<and> loadWebsiteConfig (constStore (Data None)) (Some (ascii ''r1'')) initialHook
        = (\<lparr>config = Some ((map_of defaultConfig)(ascii ''restaurant_id'' \<mapsto> JStr (ascii ''r1''))),
             loading = False, saving = False\<rparr>,
           [SelectMaybeSingle (ascii ''r1'')])
   \<and> configField (fst (loadWebsiteConfig (constStore (Data None)) (Some (ascii ''r1'')) initialHook))
        ''id'' = JUndefined
   \<and> configField (fst (loadWebsiteConfig (constStore (Data None)) (Some (ascii ''r1'')) initialHook))
        ''restaurant_id'' = JStr (ascii ''r1'')
   \<and> configField (fst (loadWebsiteConfig (constStore (Data None)) (Some (ascii ''r1'')) initialHook))
        ''is_published'' = JBool False
   \<and> configField (fst (loadWebsiteConfig (constStore (Data None)) (Some (ascii ''r1'')) initialHook))
        ''theme_color'' = JStr (ascii ''#FF6B35'')
   \<and> configField (fst (loadWebsiteConfig (constStore (Data None)) (Some (ascii ''r1'')) initialHook))
        ''hero_cta_text'' = JStr (ascii ''R'' @ [0xE9] @ ascii ''server une table'')
   \<and> configField (fst (loadWebsiteConfig (constStore (Data None)) (Some (ascii ''r1'')) initialHook))
        ''gallery_images'' = JArr []
   \<and> configField (fst (loadWebsiteConfig (constStore (Data None)) (Some (ascii ''r1'')) initialHook))
        ''google_analytics_id'' = JNull
   \<and> \<not> isWrite (SelectMaybeSingle (ascii ''r1''))"
proof -
  have h1: "ascii ''r1'' \<noteq> []" by (simp add: ascii_def)
  have h2: "constStore (Data None) (SelectMaybeSingle (ascii ''r1'')) = Data None"
    by (simp add: constStore_def)
  note T = loadWebsiteConfig_default[where rid = "ascii ''r1''"
      and store = "constStore (Data None)" and st = initialHook
      and ?store1.0 = "constStore (Data None)" and ?restaurantId1.0 = "Some (ascii ''r1'')"
      and ?st1.0 = initialHook]
  from T h1 h2
  have a: "loadWebsiteConfig (constStore (Data None)) (Some (ascii ''r1'')) initialHook
        = (initialHook\<lparr>config := Some ((map_of defaultConfig)(ascii ''restaurant_id'' \<mapsto> JStr (ascii ''r1''))),
              loading := False\<rparr>,
           [SelectMaybeSingle (ascii ''r1'')])"
    by blast
  from T h1 h2
  have b: "configField (fst (loadWebsiteConfig (constStore (Data None)) (Some (ascii ''r1'')) initialHook))
        ''id'' = JUndefined"
    "configField (fst (loadWebsiteConfig (constStore (Data None)) (Some (ascii ''r1'')) initialHook))
        ''restaurant_id'' = JStr (ascii ''r1'')"
    "configField (fst (loadWebsiteConfig (constStore (Data None)) (Some (ascii ''r1'')) initialHook))
        ''is_published'' = JBool False"
    "configField (fst (loadWebsiteConfig (constStore (Data None)) (Some (ascii ''r1'')) initialHook))
        ''theme_color'' = JStr (ascii ''#FF6B35'')"
    "configField (fst (loadWebsiteConfig (constStore (Data None)) (Some (ascii ''r1'')) initialHook))
        ''hero_cta_text'' = JStr (ascii ''R'' @ [0xE9] @ ascii ''server une table'')"
    "configField (fst (loadWebsiteConfig (constStore (Data None)) (Some (ascii ''r1'')) initialHook))
        ''gallery_images'' = JArr []"
    "configField (fst (loadWebsiteConfig (constStore (Data None)) (Some (ascii ''r1'')) initialHook))
        ''google_analytics_id'' = JNull"
    by blast+
  have c: "initialHook\<lparr>config := Some ((map_of defaultConfig)(ascii ''restaurant_id'' \<mapsto> JStr (ascii ''r1''))),
              loading := False\<rparr>
      = \<lparr>config = Some ((map_of defaultConfig)(ascii ''restaurant_id'' \<mapsto> JStr (ascii ''r1''))),
             loading = False, saving = False\<rparr>"
    by (simp add: initialHook_def)
  have d: "\<not> isWrite (SelectMaybeSingle (ascii ''r1''))" by simp
  from h1 h2 a[unfolded c] b d show ?thesis by blast
qed

text \<open>
  C7.  \<open>publishWebsite()\<close> is \<open>saveConfig({is_published: true})\<close> and
  \<open>unpublishWebsite()\<close> is \<open>saveConfig({is_published: false})\<close>: the same boolean, the
  same state and the same store calls, for every store, restaurant id and state.
\<close>

theorem publish_is_saveConfig:
  "publishWebsite store restaurantId st
     = saveConfig store restaurantId st [ascii ''is_published'' \<mapsto> JBool True]
   \<and> unpublishWebsite store restaurantId st
     = saveConfig store restaurantId st [ascii ''is_published'' \<mapsto> JBool False]"
  by (simp add: publishWebsite_def unpublishWebsite_def)

text \<open>
  C9 (as amended).  When \<open>saveConfig\<close> returns false the in-memory config is what it
  was, and it returns false on every failure of the store.  When the store accepts an
  update, \<open>saveConfig\<close> returns true and the in-memory config is the previous config
  merged with the updates; when the store returns the inserted row, \<open>saveConfig\<close>
  returns true and the in-memory config is that merge with \<open>id\<close> set to the id of the
  row.
\<close>

theorem saveConfig_atomic:
  "(\<not> fst (saveConfig store restaurantId st updates) \<longrightarrow>
      config (fst (snd (saveConfig store restaurantId st updates))) = config st)
   \<and> (rid1 \<noteq> [] \<and> config st1 = Some cfg1 \<and> truthy (field cfg1 (ascii ''id''))
        \<and> store1 (Update updates1 (field cfg1 (ascii ''id''))) = Failed \<longrightarrow>
        \<not> fst (saveConfig store1 (Some rid1) st1 updates1))
   \<and> (rid2 \<noteq> [] \<and> config st2 = Some cfg2 \<and> truthy (field cfg2 (ascii ''id''))
        \<and> store2 (Update updates2 (field cfg2 (ascii ''id''))) \<noteq> Failed \<longrightarrow>
        fst (saveConfig store2 (Some rid2) st2 updates2)
        \<and> config (fst (snd (saveConfig store2 (Some rid2) st2 updates2))) = Some (cfg2 ++ updates2))
   \<and> (rid3 \<noteq> [] \<and> config st3 = Some cfg3 \<and> \<not> truthy (field cfg3 (ascii ''id''))
        \<and> (store3 (InsertSelectSingle ((cfg3 ++ updates3)(ascii ''restaurant_id'' \<mapsto> JStr rid3)))
              = Failed
            \<or> store3 (InsertSelectSingle ((cfg3 ++ updates3)(ascii ''restaurant_id'' \<mapsto> JStr rid3)))
              = Data None) \<longrightarrow>
        \<not> fst (saveConfig store3 (Some rid3) st3 updates3))
   \<and> (rid4 \<noteq> [] \<and> config st4 = Some cfg4 \<and> \<not> truthy (field cfg4 (ascii ''id''))
        \<and> store4 (InsertSelectSingle ((cfg4 ++ updates4)(ascii ''restaurant_id'' \<mapsto> JStr rid4)))
             = Data (Some d) \<longrightarrow>
        fst (saveConfig store4 (Some rid4) st4 updates4)
        \<and> config (fst (snd (saveConfig store4 (Some rid4) st4 updates4)))
            = Some ((cfg4 ++ updates4)(ascii ''id'' \<mapsto> field d (ascii ''id''))))"
proof (intro conjI impI)
  assume f: "\<not> fst (saveConfig store restaurantId st updates)"
  show "config (fst (snd (saveConfig store restaurantId st updates))) = config st"
  proof (cases restaurantId st rule: saveConfig_cases)
    case guard
    then show ?thesis by (simp add: saveConfig_guard)
  next
    case (update rid cfg)
    with f show ?thesis
      by (simp add: saveConfig_update split: store_reply.splits)
  next
    case (insert rid cfg)
    with f show ?thesis
      by (simp add: saveConfig_insert split: store_reply.splits option.splits)
  qed
next
  assume "rid1 \<noteq> [] \<and> config st1 = Some cfg1 \<and> truthy (field cfg1 (ascii ''id''))
        \<and> store1 (Update updates1 (field cfg1 (ascii ''id''))) = Failed"
  then show "\<not> fst (saveConfig store1 (Some rid1) st1 updates1)"
    by (simp add: saveConfig_update)
next
  assume h: "rid2 \<noteq> [] \<and> config st2 = Some cfg2 \<and> truthy (field cfg2 (ascii ''id''))
        \<and> store2 (Update updates2 (field cfg2 (ascii ''id''))) \<noteq> Failed"
  then show "fst (saveConfig store2 (Some rid2) st2 updates2)"
    and "config (fst (snd (saveConfig store2 (Some rid2) st2 updates2))) = Some (cfg2 ++ updates2)"
    by (simp_all add: saveConfig_update split: store_reply.splits)
next
  assume "rid3 \<noteq> [] \<and> config st3 = Some cfg3 \<and> \<not> truthy (field cfg3 (ascii ''id''))
        \<and> (store3 (InsertSelectSingle ((cfg3 ++ updates3)(ascii ''restaurant_id'' \<mapsto> JStr rid3)))
              = Failed
            \<or> store3 (InsertSelectSingle ((cfg3 ++ updates3)(ascii ''restaurant_id'' \<mapsto> JStr rid3)))
              = Data None)"
  then show "\<not> fst (saveConfig store3 (Some rid3) st3 updates3)"
    by (auto simp: saveConfig_insert)
next
  assume "rid4 \<noteq> [] \<and> config st4 = Some cfg4 \<and> \<not> truthy (field cfg4 (ascii ''id''))
        \<and> store4 (InsertSelectSingle ((cfg4 ++ updates4)(ascii ''restaurant_id'' \<mapsto> JStr rid4)))
             = Data (Some d)"
  then show "fst (saveConfig store4 (Some rid4) st4 updates4)"
    and "config (fst (snd (saveConfig store4 (Some rid4) st4 updates4)))
            = Some ((cfg4 ++ updates4)(ascii ''id'' \<mapsto> field d (ascii ''id'')))"
    by (simp_all add: saveConfig_insert)
qed

theorem saveConfig_atomic_witness:
  "\<not> fst (saveConfig (constStore Failed) (Some (ascii ''r1''))
        \<lparr>config = Some [ascii ''id'' \<mapsto> JStr (ascii ''w1'')], loading = False, saving = False\<rparr>
        [ascii ''is_published'' \<mapsto> JBool True])
   \<and> config (fst (snd (saveConfig (constStore Failed) (Some (ascii ''r1''))
        \<lparr>config = Some [ascii ''id'' \<mapsto> JStr (ascii ''w1'')], loading = False, saving = False\<rparr>
        [ascii ''is_published'' \<mapsto> JBool True])))
      = Some [ascii ''id'' \<mapsto> JStr (ascii ''w1'')]
   \<and> fst (saveConfig (constStore (Data None)) (Some (ascii ''r1''))
        \<lparr>config = Some [ascii ''id'' \<mapsto> JStr (ascii ''w1'')], loading = False, saving = False\<rparr>
        [ascii ''is_published'' \<mapsto> JBool True])
   \<and> config (fst (snd (saveConfig (constStore (Data None)) (Some (ascii ''r1''))
        \<lparr>config = Some [ascii ''id'' \<mapsto> JStr (ascii ''w1'')], loading = False, saving = False\<rparr>
        [ascii ''is_published'' \<mapsto> JBool True])))
      = Some ([ascii ''id'' \<mapsto> JStr (ascii ''w1'')] ++ [ascii ''is_published'' \<mapsto> JBool True])
   \<and> \<not> fst (saveConfig (constStore Failed) (Some (ascii ''r1''))
        \<lparr>config = Some Map.empty, loading = False, saving = False\<rparr> Map.empty)
   \<and> fst (saveConfig (constStore (Data (Some [ascii ''id'' \<mapsto> JStr (ascii ''w1'')])))
        (Some (ascii ''r1'')) \<lparr>config = Some Map.empty, loading = False, saving = False\<rparr> Map.empty)
   \<and> config (fst (snd (saveConfig (constStore (Data (Some [ascii ''id'' \<mapsto> JStr (ascii ''w1'')])))
        (Some (ascii ''r1'')) \<lparr>config = Some Map.empty, loading = False, saving = False\<rparr> Map.empty)))
      = Some ((Map.empty ++ Map.empty)(ascii ''id'' \<mapsto> JStr (ascii ''w1'')))"
proof -
  let ?old = "\<lparr>config = Some [ascii ''id'' \<mapsto> JStr (ascii ''w1'')],
               loading = False, saving = False\<rparr>"
  let ?new = "\<lparr>config = Some Map.empty, loading = False, saving = False\<rparr>"
  let ?pub = "[ascii ''is_published'' \<mapsto> JBool True]"
  let ?row = "[ascii ''id'' \<mapsto> JStr (ascii ''w1'')]"
  have r: "ascii ''r1'' \<noteq> []" by (simp add: ascii_def)
  have c: "config ?old = Some ?row" "config ?new = Some Map.empty" by simp_all
  have t: "truthy (field ?row (ascii ''id''))" "\<not> truthy (field Map.empty (ascii ''id''))"
    by (simp_all add: field_def ascii_def)
  have f: "field ?row (ascii ''id'') = JStr (ascii ''w1'')" by (simp add: field_def)
  have s: "\<And>op. constStore Failed op = Failed" "\<And>op. constStore (Data None) op \<noteq> Failed"
    "\<And>op. constStore (Data (Some ?row)) op = Data (Some ?row)"
    by (simp_all add: constStore_def)
  note T = saveConfig_atomic[of "constStore Failed" "Some (ascii ''r1'')" ?old ?pub
      "ascii ''r1''" ?old ?row "constStore Failed" ?pub
      "ascii ''r1''" ?old ?row "constStore (Data None)" ?pub
      "ascii ''r1''" ?new Map.empty "constStore Failed" Map.empty
      "ascii ''r1''" ?new Map.empty "constStore (Data (Some ?row))" Map.empty ?row]
  from T r c t s have a: "\<not> fst (saveConfig (constStore Failed) (Some (ascii ''r1'')) ?old ?pub)"
    by blast
  with T have a': "config (fst (snd (saveConfig (constStore Failed) (Some (ascii ''r1'')) ?old ?pub)))
      = config ?old"
    by blast
  from T r c t s have b: "fst (saveConfig (constStore (Data None)) (Some (ascii ''r1'')) ?old ?pub)
      \<and> config (fst (snd (saveConfig (constStore (Data None)) (Some (ascii ''r1'')) ?old ?pub)))
           = Some (?row ++ ?pub)"
    by blast
  from T r c t s have d: "\<not> fst (saveConfig (constStore Failed) (Some (ascii ''r1'')) ?new Map.empty)"
    by blast
  from T r c t s have e: "fst (saveConfig (constStore (Data (Some ?row))) (Some (ascii ''r1'')) ?new Map.empty)
      \<and> config (fst (snd (saveConfig (constStore (Data (Some ?row))) (Some (ascii ''r1'')) ?new Map.empty)))
           = Some ((Map.empty ++ Map.empty)(ascii ''id'' \<mapsto> field ?row (ascii ''id'')))"
    by blast
  from a a' b d e show ?thesis unfolding f c by blast
qed

text \<open>
  The claim C9 as stated fails on the insert path: after a successful first save the
  in-memory config has the \<open>id\<close> of the new row, which the previous config merged with
  the updates does not have.
\<close>

theorem saveConfig_atomic_counterexample:
  "fst (saveConfig (constStore (Data (Some [ascii ''id'' \<mapsto> JStr (ascii ''w1'')])))
        (Some (ascii ''r1''))
        \<lparr>config = Some [ascii ''restaurant_id'' \<mapsto> JStr (ascii ''r1'')], loading = False, saving = False\<rparr>
        [ascii ''is_published'' \<mapsto> JBool True])
   \<and> configId (fst (snd (saveConfig (constStore (Data (Some [ascii ''id'' \<mapsto> JStr (ascii ''w1'')])))
        (Some (ascii ''r1''))
        \<lparr>config = Some [ascii ''restaurant_id'' \<mapsto> JStr (ascii ''r1'')], loading = False, saving = False\<rparr>
        [ascii ''is_published'' \<mapsto> JBool True])))
      = JStr (ascii ''w1'')
   \<and> field ([ascii ''restaurant_id'' \<mapsto> JStr (ascii ''r1'')] ++ [ascii ''is_published'' \<mapsto> JBool True])
        (ascii ''id'')
      = JUndefined
   \<and> JStr (ascii ''w1'') \<noteq> JUndefined"
proof -
  let ?cfg = "[ascii ''restaurant_id'' \<mapsto> JStr (ascii ''r1'')]"
  let ?st = "\<lparr>config = Some ?cfg, loading = False, saving = False\<rparr>"
  have r: "ascii ''r1'' \<noteq> []" by (simp add: ascii_def)
  have n: "\<not> truthy (field ?cfg (ascii ''id''))" by (simp add: field_def ascii_def)
  have c: "config ?st = Some ?cfg" by simp
  have u: "field (?cfg ++ [ascii ''is_published'' \<mapsto> JBool True]) (ascii ''id'') = JUndefined"
    by (simp add: field_def map_add_def ascii_def)
  show ?thesis
    unfolding saveConfig_insert[OF r c n] u
    by (simp add: constStore_def configId_def field_def)
qed

text \<open>
  C10.  \<open>saveConfig\<close> returns false, issues no store call and leaves the state as it is
  when the restaurant id is null (or empty) or no config has been loaded;
  \<open>loadWebsiteConfig\<close> issues no store call and leaves the state as it is when the
  restaurant id is null (or empty).
\<close>

theorem hook_guards:
  "(missing restaurantId \<or> config st = None \<longrightarrow>
      saveConfig store restaurantId st updates = (False, st, []))
   \<and> (missing restaurantId1 \<longrightarrow> loadWebsiteConfig store1 restaurantId1 st1 = (st1, []))"
proof (intro conjI impI)
  assume "missing restaurantId \<or> config st = None"
  then show "saveConfig store restaurantId st updates = (False, st, [])"
    by (rule saveConfig_guard)
next
  assume "missing restaurantId1"
  then show "loadWebsiteConfig store1 restaurantId1 st1 = (st1, [])"
    by (cases restaurantId1) (simp_all add: loadWebsiteConfig_def)
qed

theorem hook_guards_witness:
  "missing None \<and> config initialHook = None
   \<and> saveConfig (constStore (Data None)) None initialHook [ascii ''is_published'' \<mapsto> JBool True]
        = (False, initialHook, [])
   \<and> saveConfig (constStore (Data None)) (Some (ascii ''r1'')) initialHook
        [ascii ''is_published'' \<mapsto> JBool True]
        = (False, initialHook, [])
   \<and> loadWebsiteConfig (constStore (Data None)) None initialHook = (initialHook, [])"
proof -
  have h: "missing None" "config initialHook = None"
    by (simp_all add: initialHook_def)
  from hook_guards[where restaurantId = None and st = initialHook
      and store = "constStore (Data None)" and updates = "[ascii ''is_published'' \<mapsto> JBool True]"
      and ?store1.0 = "constStore (Data None)" and ?restaurantId1.0 = None and ?st1.0 = initialHook] h
  have a: "saveConfig (constStore (Data None)) None initialHook [ascii ''is_published'' \<mapsto> JBool True]
        = (False, initialHook, [])"
    and b: "loadWebsiteConfig (constStore (Data None)) None initialHook = (initialHook, [])"
    by blast+
  from hook_guards[where restaurantId = "Some (ascii ''r1'')" and st = initialHook
      and store = "constStore (Data None)" and updates = "[ascii ''is_published'' \<mapsto> JBool True]"
      and ?store1.0 = "constStore (Data None)" and ?restaurantId1.0 = None and ?st1.0 = initialHook] h
  have c: "saveConfig (constStore (Data None)) (Some (ascii ''r1'')) initialHook
        [ascii ''is_published'' \<mapsto> JBool True]
        = (False, initialHook, [])"
    by blast
  from h a b c show ?thesis by blast
qed

section \<open>The public site\<close>

lemma get_public_website_sound:
  assumes "rec \<in> set (get_public_website db sub)"
  shows "publicRecord db sub rec"
  using assms
  by (auto simp: get_public_website_def publicRecord_def sqlEq_def)

lemma get_public_website_empty:
  assumes "\<not> (\<exists>rec. publicRecord db sub rec)"
  shows "get_public_website db sub = []"
proof (cases "get_public_website db sub")
  case Nil
  then show ?thesis .
next
  case (Cons r rs)
  then have "r \<in> set (get_public_website db sub)" by simp
  with assms show ?thesis by (blast dest: get_public_website_sound)
qed

lemma siteNotFound_not_empty: "siteNotFound \<noteq> []"
  by (simp add: siteNotFound_def)

lemma siteLoadFailed_not_empty: "siteLoadFailed \<noteq> []"
  by (simp add: siteLoadFailed_def ascii_def)

lemma loadWebsite_found:
  assumes "sub \<noteq> []" and "get_public_website db sub = r # rs"
  shows "loadWebsite (rpc_get_public_website True db) (Some sub) st
     = st\<lparr>siteData := Some r, siteLoading := False\<rparr>"
  using assms by (simp add: loadWebsite_def rpc_get_public_website_def)

lemma loadWebsite_not_found:
  assumes "get_public_website db sub = []"
  shows "loadWebsite (rpc_get_public_website True db) (Some sub) st
     = st\<lparr>siteError := Some siteNotFound, siteLoading := False\<rparr>"
  using assms by (simp add: loadWebsite_def rpc_get_public_website_def)

lemma loadWebsite_stores:
  assumes "siteData (loadWebsite (rpc_get_public_website reachable db) subdomain st) = Some rec"
  shows "siteData st = Some rec
       \<or> (\<exists>sub. subdomain = Some sub \<and> publicRecord db sub rec
             \<and> siteError (loadWebsite (rpc_get_public_website reachable db) subdomain st)
                 = siteError st)"
proof (cases subdomain)
  case None
  with assms show ?thesis by (simp add: loadWebsite_def)
next
  case (Some s)
  show ?thesis
  proof (cases "s \<noteq> [] \<and> reachable \<and> get_public_website db s \<noteq> []")
    case True
    then obtain r rs where l: "get_public_website db s = r # rs"
      by (cases "get_public_website db s") auto
    with assms Some True have "rec = r"
      by (simp add: loadWebsite_def rpc_get_public_website_def)
    moreover from l have "r \<in> set (get_public_website db s)" by simp
    ultimately have "publicRecord db s rec" by (simp add: get_public_website_sound)
    moreover from l Some True
    have "siteError (loadWebsite (rpc_get_public_website reachable db) subdomain st) = siteError st"
      by (simp add: loadWebsite_def rpc_get_public_website_def)
    ultimately show ?thesis using Some by simp
  next
    case False
    with assms Some have "siteData st = Some rec"
      by (auto simp: loadWebsite_def rpc_get_public_website_def split: if_splits)
    then show ?thesis by simp
  qed
qed

lemma loadWebsite_renders:
  assumes "render (loadWebsite (rpc_get_public_website reachable db) subdomain st) = SitePage w r"
  shows "\<exists>sub. subdomain = Some sub \<and> publicRecord db sub (w, r)"
proof (cases subdomain)
  case None
  with assms show ?thesis
    by (simp add: loadWebsite_def render_def siteNotFound_not_empty)
next
  case (Some s)
  show ?thesis
  proof (cases "s \<noteq> [] \<and> reachable \<and> get_public_website db s \<noteq> []")
    case True
    then obtain x xs where l: "get_public_website db s = x # xs"
      by (cases "get_public_website db s") auto
    with assms Some True have "x = (w, r)"
      by (cases x)
         (auto simp: loadWebsite_def rpc_get_public_website_def render_def
            split: if_splits option.splits)
    moreover from l have "x \<in> set (get_public_website db s)" by simp
    ultimately have "publicRecord db s (w, r)" by (simp add: get_public_website_sound)
    with Some show ?thesis by simp
  next
    case False
    with assms Some show ?thesis
      by (auto simp: loadWebsite_def rpc_get_public_website_def render_def
            siteNotFound_not_empty siteLoadFailed_not_empty split: if_splits)
  qed
qed

text \<open>
  C8 (as amended).  \<open>get_public_website\<close> returns only records of a website row with the
  subdomain that is published and whose restaurant is active.  Whatever the page held
  before, a load stores only such a record and the page renders only such a record.  For
  a subdomain without such a record the load stores nothing: the page keeps the data it
  had (none on a first load) and shows the 404 page.
\<close>

theorem public_site_published_active_only:
  "(rec \<in> set (get_public_website db sub) \<longrightarrow> publicRecord db sub rec)
   \<and> (render (loadWebsite (rpc_get_public_website reachableR dbR) subdomainR stR) = SitePage w r \<longrightarrow>
        (\<exists>s. subdomainR = Some s \<and> publicRecord dbR s (w, r)))
   \<and> (siteData (loadWebsite (rpc_get_public_website reachableS dbS) subdomainS stS) = Some recS \<longrightarrow>
        siteData stS = Some recS
        \<or> (\<exists>s. subdomainS = Some s \<and> publicRecord dbS s recS))
   \<and> (\<not> (\<exists>x. publicRecord dbN subN x) \<longrightarrow>
        siteData (loadWebsite (rpc_get_public_website reachableN dbN) (Some subN) stN) = siteData stN
        \<and> siteData (loadWebsite (rpc_get_public_website reachableN dbN) (Some subN) initialSite) = None
        \<and> (render (loadWebsite (rpc_get_public_website reachableN dbN) (Some subN) stN)
              = NotFoundPage siteNotFound
            \<or> render (loadWebsite (rpc_get_public_website reachableN dbN) (Some subN) stN)
              = NotFoundPage siteLoadFailed)
        \<and> (reachableN \<longrightarrow>
              render (loadWebsite (rpc_get_public_website reachableN dbN) (Some subN) stN)
                = NotFoundPage siteNotFound))"
proof (intro conjI impI)
  assume "rec \<in> set (get_public_website db sub)"
  then show "publicRecord db sub rec" by (rule get_public_website_sound)
next
  assume "render (loadWebsite (rpc_get_public_website reachableR dbR) subdomainR stR) = SitePage w r"
  then show "\<exists>s. subdomainR = Some s \<and> publicRecord dbR s (w, r)"
    by (rule loadWebsite_renders)
next
  assume "siteData (loadWebsite (rpc_get_public_website reachableS dbS) subdomainS stS) = Some recS"
  from loadWebsite_stores[OF this]
  show "siteData stS = Some recS \<or> (\<exists>s. subdomainS = Some s \<and> publicRecord dbS s recS)"
    by blast
next
  assume n: "\<not> (\<exists>x. publicRecord dbN subN x)"
  then have e: "get_public_website dbN subN = []" by (rule get_public_website_empty)
  then show "siteData (loadWebsite (rpc_get_public_website reachableN dbN) (Some subN) stN) = siteData stN"
    by (simp add: loadWebsite_def rpc_get_public_website_def)
  from e show "siteData (loadWebsite (rpc_get_public_website reachableN dbN) (Some subN) initialSite) = None"
    by (simp add: loadWebsite_def rpc_get_public_website_def initialSite_def)
  from e show "render (loadWebsite (rpc_get_public_website reachableN dbN) (Some subN) stN)
              = NotFoundPage siteNotFound
            \<or> render (loadWebsite (rpc_get_public_website reachableN dbN) (Some subN) stN)
              = NotFoundPage siteLoadFailed"
    by (simp add: loadWebsite_def rpc_get_public_website_def render_def
          siteNotFound_not_empty siteLoadFailed_not_empty)
  assume reachableN
  with e show "render (loadWebsite (rpc_get_public_website reachableN dbN) (Some subN) stN)
                = NotFoundPage siteNotFound"
    by (simp add: loadWebsite_def rpc_get_public_website_def render_def siteNotFound_not_empty)
qed

lemma exampleDatabase_public:
  "publicRecord (exampleDatabase published active) (ascii ''chez-moi'') x \<Longrightarrow> published \<and> active"
  by (auto simp: publicRecord_def exampleDatabase_def col_def)

lemma exampleDatabase_found:
  "get_public_website (exampleDatabase True True) (ascii ''chez-moi'')
     = [(hd (restaurant_websites (exampleDatabase True True)),
         restaurant_data (hd (restaurants (exampleDatabase True True))))]"
  by (simp add: get_public_website_def exampleDatabase_def col_def sqlEq_def ascii_def)

lemma exampleDatabase_not_found:
  "get_public_website (exampleDatabase False True) (ascii ''chez-moi'') = []"
  "get_public_website (exampleDatabase True False) (ascii ''chez-moi'') = []"
  "get_public_website (exampleDatabase True True) (ascii ''ailleurs'') = []"
  by (simp_all add: get_public_website_def exampleDatabase_def col_def sqlEq_def ascii_def)

theorem public_site_published_active_only_witness:
  "get_public_website (exampleDatabase True True) (ascii ''chez-moi'')
     = [(hd (restaurant_websites (exampleDatabase True True)),
         restaurant_data (hd (restaurants (exampleDatabase True True))))]
   \<and> publicRecord (exampleDatabase True True) (ascii ''chez-moi'')
        (hd (restaurant_websites (exampleDatabase True True)),
         restaurant_data (hd (restaurants (exampleDatabase True True))))
   \<and> render (loadWebsite (rpc_get_public_website True (exampleDatabase True True))
        (Some (ascii ''chez-moi'')) initialSite)
      = SitePage (hd (restaurant_websites (exampleDatabase True True)))
          (restaurant_data (hd (restaurants (exampleDatabase True True))))
   \<and> siteData (loadWebsite (rpc_get_public_website True (exampleDatabase True True))
        (Some (ascii ''chez-moi'')) initialSite)
      = Some (hd (restaurant_websites (exampleDatabase True True)),
              restaurant_data (hd (restaurants (exampleDatabase True True))))
   \<and> siteData initialSite = None
   \<and> \<not> (\<exists>x. publicRecord (exampleDatabase False True) (ascii ''chez-moi'') x)
   \<and> \<not> (\<exists>x. publicRecord (exampleDatabase True False) (ascii ''chez-moi'') x)
   \<and> \<not> (\<exists>x. publicRecord (exampleDatabase True True) (ascii ''ailleurs'') x)
   \<and> siteData (loadWebsite (rpc_get_public_website True (exampleDatabase False True))
        (Some (ascii ''chez-moi'')) initialSite) = None
   \<and> render (loadWebsite (rpc_get_public_website True (exampleDatabase False True))
        (Some (ascii ''chez-moi'')) initialSite) = NotFoundPage siteNotFound
   \<and> render (loadWebsite (rpc_get_public_website True (exampleDatabase True False))
        (Some (ascii ''chez-moi'')) initialSite) = NotFoundPage siteNotFound
   \<and> render (loadWebsite (rpc_get_public_website True (exampleDatabase True True))
        (Some (ascii ''ailleurs'')) initialSite) = NotFoundPage siteNotFound"
proof -
  let ?db = "exampleDatabase True True"
  let ?rec = "(hd (restaurant_websites ?db), restaurant_data (hd (restaurants ?db)))"
  have c: "ascii ''chez-moi'' \<noteq> []" by (simp add: ascii_def)
  have l: "loadWebsite (rpc_get_public_website True ?db) (Some (ascii ''chez-moi'')) initialSite
      = initialSite\<lparr>siteData := Some ?rec, siteLoading := False\<rparr>"
    by (rule loadWebsite_found[OF c exampleDatabase_found])
  have i: "siteData initialSite = None"
    by (simp add: initialSite_def)
  have m: "?rec \<in> set (get_public_website ?db (ascii ''chez-moi''))"
    by (simp add: exampleDatabase_found)
  have rd: "render (loadWebsite (rpc_get_public_website True ?db) (Some (ascii ''chez-moi'')) initialSite)
      = SitePage (hd (restaurant_websites ?db)) (restaurant_data (hd (restaurants ?db)))"
    unfolding l by (simp add: render_def initialSite_def)
  have sd: "siteData (loadWebsite (rpc_get_public_website True ?db) (Some (ascii ''chez-moi'')) initialSite)
      = Some ?rec"
    unfolding l by simp
  have n1: "\<not> (\<exists>x. publicRecord (exampleDatabase False True) (ascii ''chez-moi'') x)"
    and n2: "\<not> (\<exists>x. publicRecord (exampleDatabase True False) (ascii ''chez-moi'') x)"
    using exampleDatabase_public by blast+
  have n3: "\<not> (\<exists>x. publicRecord ?db (ascii ''ailleurs'') x)"
    by (simp add: publicRecord_def exampleDatabase_def col_def ascii_def)
  from public_site_published_active_only[where db = ?db and sub = "ascii ''chez-moi''"
      and rec = ?rec] m
  have a: "publicRecord ?db (ascii ''chez-moi'') ?rec"
    by blast
  from public_site_published_active_only[where dbR = ?db and reachableR = True
      and subdomainR = "Some (ascii ''chez-moi'')" and stR = initialSite
      and w = "hd (restaurant_websites ?db)" and r = "restaurant_data (hd (restaurants ?db))"] rd
  have a': "publicRecord ?db (ascii ''chez-moi'') ?rec"
    by auto
  from public_site_published_active_only[where dbS = ?db and reachableS = True
      and subdomainS = "Some (ascii ''chez-moi'')" and stS = initialSite and recS = ?rec] sd i
  have a'': "publicRecord ?db (ascii ''chez-moi'') ?rec"
    by auto
  from public_site_published_active_only[where dbN = "exampleDatabase False True"
      and subN = "ascii ''chez-moi''" and reachableN = True and stN = initialSite] n1
  have b: "siteData (loadWebsite (rpc_get_public_website True (exampleDatabase False True))
        (Some (ascii ''chez-moi'')) initialSite) = None"
    "render (loadWebsite (rpc_get_public_website True (exampleDatabase False True))
        (Some (ascii ''chez-moi'')) initialSite) = NotFoundPage siteNotFound"
    by blast+
  from public_site_published_active_only[where dbN = "exampleDatabase True False"
      and subN = "ascii ''chez-moi''" and reachableN = True and stN = initialSite] n2
  have c': "render (loadWebsite (rpc_get_public_website True (exampleDatabase True False))
        (Some (ascii ''chez-moi'')) initialSite) = NotFoundPage siteNotFound"
    by blast
  from public_site_published_active_only[where dbN = ?db
      and subN = "ascii ''ailleurs''" and reachableN = True and stN = initialSite] n3
  have d: "render (loadWebsite (rpc_get_public_website True ?db)
        (Some (ascii ''ailleurs'')) initialSite) = NotFoundPage siteNotFound"
    by blast
  from exampleDatabase_found rd sd i n1 n2 n3 a a' a'' b c' d show ?thesis by blast
qed

text \<open>
  The claim C8 as stated fails: the page never resets its data.  After the site of
  \<open>chez-moi\<close> was shown, the route changed to a subdomain that does not exist, the site
  was unpublished and the route changed back, the page still holds the record of
  \<open>chez-moi\<close>, while it shows the 404 page.
\<close>

theorem public_site_published_active_only_counterexample:
  "get_public_website (exampleDatabase False True) (ascii ''chez-moi'') = []
   \<and> col (hd (restaurant_websites (exampleDatabase True True))) ''subdomain''
        = JStr (ascii ''chez-moi'')
   \<and> siteData
        (loadWebsite (rpc_get_public_website True (exampleDatabase False True)) (Some (ascii ''chez-moi''))
          (loadWebsite (rpc_get_public_website True (exampleDatabase True True)) (Some (ascii ''ailleurs''))
            (loadWebsite (rpc_get_public_website True (exampleDatabase True True)) (Some (ascii ''chez-moi''))
              initialSite)))
      = Some (hd (restaurant_websites (exampleDatabase True True)),
              restaurant_data (hd (restaurants (exampleDatabase True True))))
   \<and> render
        (loadWebsite (rpc_get_public_website True (exampleDatabase False True)) (Some (ascii ''chez-moi''))
          (loadWebsite (rpc_get_public_website True (exampleDatabase True True)) (Some (ascii ''ailleurs''))
            (loadWebsite (rpc_get_public_website True (exampleDatabase True True)) (Some (ascii ''chez-moi''))
              initialSite)))
      = NotFoundPage siteNotFound"
proof -
  have c: "ascii ''chez-moi'' \<noteq> []" by (simp add: ascii_def)
  have s: "col (hd (restaurant_websites (exampleDatabase True True))) ''subdomain''
        = JStr (ascii ''chez-moi'')"
    by (simp add: exampleDatabase_def col_def ascii_def)
  show ?thesis
    unfolding loadWebsite_found[OF c exampleDatabase_found]
      loadWebsite_not_found[OF exampleDatabase_not_found(3)]
      loadWebsite_not_found[OF exampleDatabase_not_found(1)]
    using s by (simp add: exampleDatabase_not_found render_def initialSite_def siteNotFound_not_empty)
qed

end
